theory Spec2Isabelle
  imports Complex_Main "HOL-Library.Sublist"
begin

section \<open>Errors\<close>

text \<open>
  Every exception that the modelled part of \<^verbatim>\<open>utils/data.py\<close> can raise is a value.
  \<open>TypeError\<close> and \<open>ValueError\<close> carry their message, \<open>FileNotFoundError\<close> the path.
\<close>

datatype error =
    TypeError string
  | ValueError string
  | IndexError
  | RuntimeError
  | FileNotFoundError string

section \<open>Strings: \<^verbatim>\<open>str.split(sep)\<close>\<close>

text \<open>
  Python's \<^verbatim>\<open>s.split(sep)\<close> for a non-empty separator: the string is scanned from the left,
  every non-overlapping occurrence of \<open>sep\<close> closes the current piece. \<open>acc\<close> holds the
  current piece reversed. (An empty separator raises in Python; the loaders only ever pass
  the literal \<^verbatim>\<open>"_image_"\<close>, and with an empty separator this function never cuts.)
\<close>

function split_acc :: "string \<Rightarrow> string \<Rightarrow> string \<Rightarrow> string list" where
  "split_acc sep acc [] = [rev acc]"
| "split_acc sep acc (c # cs) =
     (if sep \<noteq> [] \<and> prefix sep (c # cs)
      then rev acc # split_acc sep [] (drop (length sep) (c # cs))
      else split_acc sep (c # acc) cs)"
  by pat_completeness auto
termination
  by (relation "measure (\<lambda>(sep, acc, s). length s)") auto

definition split :: "string \<Rightarrow> string \<Rightarrow> string list" where
  "split sep s = split_acc sep [] s"

text \<open>\<^verbatim>\<open>sep.join(parts)\<close>, used to state what \<open>split\<close> preserves.\<close>

fun join :: "string \<Rightarrow> string list \<Rightarrow> string" where
  "join sep [] = []"
| "join sep [p] = p"
| "join sep (p # q # ps) = p @ sep @ join sep (q # ps)"

section \<open>Depth-train file names\<close>

text \<open>
  Lines 123 to 126 and 134 of \<^verbatim>\<open>load_kitti_depth_dataset\<close>:
  \<^verbatim>\<open>filename = filename.name.split("_image_")\<close>,
  \<^verbatim>\<open>file_prefix, file_suffix = filename[0], f"{filename[1]}_image_{filename[2]}"\<close>.
  Indexing a list out of range raises \<open>IndexError\<close>; \<open>filename[0]\<close> always exists.
\<close>

definition getitem :: "'a list \<Rightarrow> nat \<Rightarrow> error + 'a" where
  "getitem xs i = (if i < length xs then Inr (xs ! i) else Inl IndexError)"

definition prefix_suffix :: "string \<Rightarrow> error + (string \<times> string)" where
  "prefix_suffix name =
     (let filename = split ''_image_'' name in
      case getitem filename 0 of Inl e \<Rightarrow> Inl e | Inr f0 \<Rightarrow>
      case getitem filename 1 of Inl e \<Rightarrow> Inl e | Inr f1 \<Rightarrow>
      case getitem filename 2 of Inl e \<Rightarrow> Inl e | Inr f2 \<Rightarrow>
      Inr (f0, f1 @ ''_image_'' @ f2))"

definition velodyne_raw_path :: "string \<times> string \<Rightarrow> string" where
  "velodyne_raw_path ps =
     ''val_selection_cropped/velodyne_raw/'' @ fst ps @ ''_velodyne_raw_'' @ snd ps"

definition groundtruth_depth_path :: "string \<times> string \<Rightarrow> string" where
  "groundtruth_depth_path ps =
     ''val_selection_cropped/groundtruth_depth/'' @ fst ps @ ''_groundtruth_depth_'' @ snd ps"

section \<open>Arrays, images and tensors\<close>

text \<open>
  A numpy array, the pixel data of a PIL image and a torch tensor are nested sequences of
  scalars. Pixel and tensor values are exact rationals: the integer modes of PIL embed, and
  the float mode \<^verbatim>\<open>F\<close> and float tensors are idealised (no rounding, no NaN).
\<close>

datatype 'a ndarray = Elem 'a | Arr "'a ndarray list"

type_synonym image = "rat ndarray"
type_synonym tensor = "rat ndarray"

text \<open>\<^verbatim>\<open>a.shape\<close> of a rectangular array, and \<^verbatim>\<open>a.ravel()\<close>, its scalars in row-major order.\<close>

fun shape :: "'a ndarray \<Rightarrow> nat list" where
  "shape (Elem x) = []"
| "shape (Arr []) = [0]"
| "shape (Arr (t # ts)) = Suc (length ts) # shape t"

fun ravel :: "'a ndarray \<Rightarrow> 'a list" where
  "ravel (Elem x) = [x]"
| "ravel (Arr ts) = concat (map ravel ts)"

text \<open>The layout of an array: the array with every scalar forgotten.\<close>

definition layout :: "'a ndarray \<Rightarrow> unit ndarray" where
  "layout a = map_ndarray (\<lambda>_. ()) a"

section \<open>\<^verbatim>\<open>generate_mask\<close>\<close>

text \<open>
  Line 43, \<^verbatim>\<open>mask[mask > 0.0] = 1.0\<close>: boolean-mask assignment. Every element greater than
  zero is overwritten with one; an element that is not selected keeps its value.
\<close>

definition setitem_gt0 :: "rat ndarray \<Rightarrow> rat ndarray" where
  "setitem_gt0 msk = map_ndarray (\<lambda>p. if p > 0 then 1 else p) msk"

text \<open>
  Lines 41 to 45 on values: \<^verbatim>\<open>np.array(image)\<close> is the pixel array of the image and
  \<^verbatim>\<open>Image.fromarray(mask)\<close> the image of that array.
\<close>

definition generate_mask :: "image \<Rightarrow> image" where
  "generate_mask img = (let msk = img; msk = setitem_gt0 msk in msk)"

subsection \<open>The same function on a store of objects\<close>

text \<open>
  Python objects live in a store: a reference is an address, \<open>objs\<close> maps the allocated
  addresses to pixel buffers, and \<open>fresh\<close> is the next address to hand out.
  \<^verbatim>\<open>np.array(image)\<close> allocates a new buffer holding a copy of the image's pixels
  (numpy copies by default), the assignment of line 43 works in place on that buffer, and
  \<^verbatim>\<open>Image.fromarray\<close> allocates the image that is returned. A reference held by a Python
  program is never dangling; \<open>None\<close> is returned for an address that is not allocated.
\<close>

record store =
  objs :: "nat \<Rightarrow> rat ndarray option"
  fresh :: nat

definition alloc :: "rat ndarray \<Rightarrow> store \<Rightarrow> nat \<times> store" where
  "alloc v s = (fresh s, s\<lparr>objs := (objs s)(fresh s \<mapsto> v), fresh := Suc (fresh s)\<rparr>)"

definition np_array_st :: "nat \<Rightarrow> store \<Rightarrow> (nat \<times> store) option" where
  "np_array_st img s =
     (case objs s img of None \<Rightarrow> None | Some px \<Rightarrow> Some (alloc px s))"

definition setitem_gt0_st :: "nat \<Rightarrow> store \<Rightarrow> store option" where
  "setitem_gt0_st msk s =
     (case objs s msk of None \<Rightarrow> None
      | Some px \<Rightarrow> Some (s\<lparr>objs := (objs s)(msk \<mapsto> setitem_gt0 px)\<rparr>))"

definition fromarray_st :: "nat \<Rightarrow> store \<Rightarrow> (nat \<times> store) option" where
  "fromarray_st msk s =
     (case objs s msk of None \<Rightarrow> None | Some px \<Rightarrow> Some (alloc px s))"

definition generate_mask_st :: "nat \<Rightarrow> store \<Rightarrow> (nat \<times> store) option" where
  "generate_mask_st img s =
     (case np_array_st img s of None \<Rightarrow> None
      | Some (msk, s1) \<Rightarrow>
     (case setitem_gt0_st msk s1 of None \<Rightarrow> None
      | Some s2 \<Rightarrow> fromarray_st msk s2))"

text \<open>Every allocated address is below \<open>fresh\<close>.\<close>

definition store_ok :: "store \<Rightarrow> bool" where
  "store_ok s = (\<forall>a. objs s a \<noteq> None \<longrightarrow> a < fresh s)"

section \<open>Tensors: \<^verbatim>\<open>torch.stack\<close>, \<^verbatim>\<open>torch.zeros_like\<close>, \<^verbatim>\<open>len\<close>, indexing\<close>

text \<open>
  \<^verbatim>\<open>torch.stack(ts)\<close> raises \<open>RuntimeError\<close> on an empty list and on tensors of different
  sizes; otherwise the result has the tensors along a new first dimension.
\<close>

definition stack :: "tensor list \<Rightarrow> error + tensor" where
  "stack ts =
     (case ts of
        [] \<Rightarrow> Inl RuntimeError
      | t # rest \<Rightarrow>
          if list_all (\<lambda>u. shape u = shape t) rest then Inr (Arr ts) else Inl RuntimeError)"

definition zeros_like :: "tensor \<Rightarrow> tensor" where
  "zeros_like t = map_ndarray (\<lambda>_. 0) t"

text \<open>\<^verbatim>\<open>len(t)\<close> is the size of the first dimension; a 0-d tensor has no \<^verbatim>\<open>len\<close>.\<close>

fun tensor_len :: "tensor \<Rightarrow> error + nat" where
  "tensor_len (Arr ts) = Inr (length ts)"
| "tensor_len (Elem x) = Inl (TypeError ''len() of a 0-d tensor'')"

text \<open>\<^verbatim>\<open>t[index]\<close> for an integer index; a negative index counts from the end.\<close>

fun tensor_getitem :: "tensor \<Rightarrow> int \<Rightarrow> error + tensor" where
  "tensor_getitem (Arr ts) i =
     (if 0 \<le> i \<and> i < int (length ts) then Inr (ts ! nat i)
      else if - int (length ts) \<le> i \<and> i < 0 then Inr (ts ! nat (i + int (length ts)))
      else Inl IndexError)"
| "tensor_getitem (Elem x) i = Inl IndexError"

section \<open>Dataset containers\<close>

text \<open>
  Lines 12 to 35. \<^verbatim>\<open>KittiDepthDataset\<close> extends \<^verbatim>\<open>KittiSemanticsDataset\<close>; its constructor
  calls the base constructor on the color list and the targets and then stacks the sensor and
  the mask list. No constructor compares the lengths of its arguments.
  \<^verbatim>\<open>__len__\<close> of both classes is \<^verbatim>\<open>len(self.X)\<close>.
\<close>

record KittiSemanticsDataset =
  X :: tensor
  Y :: tensor

record KittiDepthDataset = KittiSemanticsDataset +
  X_sensor :: tensor
  X_mask :: tensor

definition KittiSemanticsDataset_init ::
  "tensor list \<Rightarrow> tensor list \<Rightarrow> error + KittiSemanticsDataset" where
  "KittiSemanticsDataset_init xs ys =
     (case stack xs of Inl e \<Rightarrow> Inl e | Inr x \<Rightarrow>
      case stack ys of Inl e \<Rightarrow> Inl e | Inr y \<Rightarrow>
      Inr \<lparr>X = x, Y = y\<rparr>)"

definition KittiDepthDataset_init ::
  "tensor list \<Rightarrow> tensor list \<Rightarrow> tensor list \<Rightarrow> tensor list \<Rightarrow> error + KittiDepthDataset" where
  "KittiDepthDataset_init x_color x_sensor x_mask ys =
     (case KittiSemanticsDataset_init x_color ys of Inl e \<Rightarrow> Inl e | Inr base \<Rightarrow>
      case stack x_sensor of Inl e \<Rightarrow> Inl e | Inr s \<Rightarrow>
      case stack x_mask of Inl e \<Rightarrow> Inl e | Inr m \<Rightarrow>
      Inr \<lparr>X = X base, Y = Y base, X_sensor = s, X_mask = m\<rparr>)"

definition dataset_len :: "'a KittiSemanticsDataset_scheme \<Rightarrow> error + nat" where
  "dataset_len d = tensor_len (X d)"

definition semantics_getitem :: "KittiSemanticsDataset \<Rightarrow> int \<Rightarrow> error + (tensor \<times> tensor)" where
  "semantics_getitem d i =
     (case tensor_getitem (X d) i of Inl e \<Rightarrow> Inl e | Inr x \<Rightarrow>
      case tensor_getitem (Y d) i of Inl e \<Rightarrow> Inl e | Inr y \<Rightarrow>
      Inr (x, y))"

definition depth_getitem ::
  "KittiDepthDataset \<Rightarrow> int \<Rightarrow> error + (tensor \<times> tensor \<times> tensor \<times> tensor)" where
  "depth_getitem d i =
     (case tensor_getitem (X d) i of Inl e \<Rightarrow> Inl e | Inr x \<Rightarrow>
      case tensor_getitem (X_sensor d) i of Inl e \<Rightarrow> Inl e | Inr s \<Rightarrow>
      case tensor_getitem (X_mask d) i of Inl e \<Rightarrow> Inl e | Inr m \<Rightarrow>
      case tensor_getitem (Y d) i of Inl e \<Rightarrow> Inl e | Inr y \<Rightarrow>
      Inr (x, s, m, y))"

section \<open>Preprocessing\<close>

text \<open>
  \<^verbatim>\<open>transforms.Normalize(mean, std)\<close> on a tensor: \<open>ValueError\<close> when the tensor has fewer
  than three dimensions or a \<open>std\<close> is zero; \<open>mean\<close> and \<open>std\<close> are viewed as
  \<^verbatim>\<open>(-1, 1, 1)\<close> and broadcast along the channel dimension (the third from the end), so each
  needs one entry or one entry per channel, otherwise the in-place subtraction or division
  raises \<open>RuntimeError\<close>; the result is \<^verbatim>\<open>(tensor - mean) / std\<close> per channel.
\<close>

fun map_at :: "nat \<Rightarrow> ('a ndarray list \<Rightarrow> 'a ndarray list) \<Rightarrow> 'a ndarray \<Rightarrow> 'a ndarray" where
  "map_at 0 f (Arr ts) = Arr (f ts)"
| "map_at (Suc n) f (Arr ts) = Arr (map (map_at n f) ts)"
| "map_at n f (Elem x) = Elem x"

definition pick :: "rat list \<Rightarrow> nat \<Rightarrow> rat" where
  "pick v c = (if length v = 1 then v ! 0 else v ! c)"

definition normalize_channels :: "rat list \<Rightarrow> rat list \<Rightarrow> tensor list \<Rightarrow> tensor list" where
  "normalize_channels mean std chans =
     map (\<lambda>(c, ch). map_ndarray (\<lambda>v. (v - pick mean c) / pick std c) ch)
       (zip [0..<length chans] chans)"

definition normalize :: "rat list \<Rightarrow> rat list \<Rightarrow> tensor \<Rightarrow> error + tensor" where
  "normalize mean std t =
     (let nd = length (shape t) in
      if nd < 3 then Inl (ValueError ''Expected tensor to be a tensor image of size (..., C, H, W)'')
      else if 0 \<in> set std then Inl (ValueError ''std evaluated to zero'')
      else let C = shape t ! (nd - 3) in
        if (length mean = 1 \<or> length mean = C) \<and> (length std = 1 \<or> length std = C)
        then Inr (map_at (nd - 3) (normalize_channels mean std) t)
        else Inl RuntimeError)"

text \<open>
  The world outside the repository, as the loaders see it. \<open>glob\<close> lists the paths under a
  directory that match a pattern, in enumeration order; \<open>image_open\<close> decodes the file at a
  path, \<open>None\<close> when the file is missing or is no image; \<open>Resize\<close>, \<open>ToTensor\<close> and
  \<open>convert\<close> are torchvision's and PIL's resampling, tensor conversion and mode conversion;
  \<open>permutation\<close> is \<^verbatim>\<open>RandomState.permutation(n)\<close> from a generator state,
  \<open>seed_state\<close> is the state of \<^verbatim>\<open>RandomState(seed)\<close> and \<open>global_state\<close> the state of
  numpy's global generator when the loader is called.
\<close>

record env =
  glob :: "string \<Rightarrow> string \<Rightarrow> string list"
  image_open :: "string \<Rightarrow> image option"
  Resize :: "nat \<times> nat \<Rightarrow> image \<Rightarrow> image"
  ToTensor :: "image \<Rightarrow> tensor"
  convert :: "string \<Rightarrow> image \<Rightarrow> image"
  permutation :: "nat \<Rightarrow> nat \<Rightarrow> nat list"
  seed_state :: "int \<Rightarrow> nat"
  global_state :: nat

text \<open>The color pipeline (lines 53 to 60 and 97 to 104) and the depth pipeline (106 to 113).\<close>

definition preprocess_c :: "env \<Rightarrow> image \<Rightarrow> error + tensor" where
  "preprocess_c env img =
     normalize [485 / 1000, 456 / 1000, 406 / 1000] [229 / 1000, 224 / 1000, 225 / 1000]
       (ToTensor env (Resize env (352, 1216) img))"

definition preprocess_d :: "env \<Rightarrow> image \<Rightarrow> error + tensor" where
  "preprocess_d env img =
     normalize [0] [1] (ToTensor env (Resize env (352, 1216) img))"

section \<open>\<^verbatim>\<open>train_test_split\<close>\<close>

text \<open>
  Modelled from the spec: \<^verbatim>\<open>train_test_split\<close> is imported from scikit-learn and is not
  part of the repository's sources. The spec has it split the collected lists "into
  train/validation subsets using a randomized partition: fraction \<^verbatim>\<open>val_ratio\<close> held out
  as validation, optionally shuffled, reproducible when \<^verbatim>\<open>random_state\<close> is fixed", "using a
  single consistent permutation across all four". The model follows the library's documented
  behaviour: the test size is validated and rounded up, the train size is the rest, without
  shuffling the first samples are the train part, with shuffling the first \<open>n_test\<close> entries of
  one permutation of the indices are the test part and the next \<open>n_train\<close> the train part, and
  every array is indexed with the same two index lists. A float \<^verbatim>\<open>test_size\<close> is an exact
  rational here.
\<close>

datatype size_arg = SizeNone | SizeInt int | SizeFloat rat

definition validate_shuffle_split :: "nat \<Rightarrow> size_arg \<Rightarrow> error + (nat \<times> nat)" where
  "validate_shuffle_split n_samples test_size =
     (let test_size = (case test_size of SizeNone \<Rightarrow> SizeFloat (1 / 4) | t \<Rightarrow> t) in
      case (case test_size of
              SizeInt k \<Rightarrow>
                if k \<ge> int n_samples \<or> k \<le> 0 then Inl (ValueError ''test_size'') else Inr k
            | SizeFloat f \<Rightarrow>
                if f \<le> 0 \<or> f \<ge> 1 then Inl (ValueError ''test_size'')
                else Inr \<lceil>f * of_nat n_samples\<rceil>
            | SizeNone \<Rightarrow> Inl (ValueError ''test_size''))
      of Inl e \<Rightarrow> Inl e
       | Inr n_test \<Rightarrow>
           let n_train = int n_samples - n_test in
           if n_train = 0 then Inl (ValueError ''the resulting train set will be empty'')
           else Inr (nat n_train, nat n_test))"

text \<open>
  \<^verbatim>\<open>check_random_state\<close>: \<^verbatim>\<open>None\<close> is numpy's global generator, an integer seeds a new
  generator and has to fit 32 bits.
\<close>

definition check_random_state :: "env \<Rightarrow> int option \<Rightarrow> error + nat" where
  "check_random_state env random_state =
     (case random_state of
        None \<Rightarrow> Inr (global_state env)
      | Some seed \<Rightarrow>
          if 0 \<le> seed \<and> seed < 2 ^ 32 then Inr (seed_state env seed)
          else Inl (ValueError ''Seed must be between 0 and 2**32 - 1''))"

definition split_indices ::
  "env \<Rightarrow> nat \<Rightarrow> nat \<Rightarrow> nat \<Rightarrow> bool \<Rightarrow> int option \<Rightarrow> error + (nat list \<times> nat list)" where
  "split_indices env n_samples n_train n_test shuffle random_state =
     (if \<not> shuffle then Inr ([0..<n_train], [n_train..<n_train + n_test])
      else case check_random_state env random_state of
             Inl e \<Rightarrow> Inl e
           | Inr st \<Rightarrow>
               let p = permutation env st n_samples in
               Inr (take n_train (drop n_test p), take n_test p))"

definition safe_indexing :: "'a list \<Rightarrow> nat list \<Rightarrow> error + 'a list" where
  "safe_indexing a idx =
     (if list_all (\<lambda>i. i < length a) idx then Inr (map (\<lambda>i. a ! i) idx) else Inl IndexError)"

definition index_array :: "nat list \<Rightarrow> nat list \<Rightarrow> 'a list \<Rightarrow> error + ('a list \<times> 'a list)" where
  "index_array train test a =
     (case safe_indexing a train of Inl e \<Rightarrow> Inl e | Inr a_train \<Rightarrow>
      case safe_indexing a test of Inl e \<Rightarrow> Inl e | Inr a_test \<Rightarrow>
      Inr (a_train, a_test))"

fun collect :: "(error + 'a) list \<Rightarrow> error + 'a list" where
  "collect [] = Inr []"
| "collect (r # rs) =
     (case r of Inl e \<Rightarrow> Inl e | Inr v \<Rightarrow>
      case collect rs of Inl e \<Rightarrow> Inl e | Inr vs \<Rightarrow> Inr (v # vs))"

definition train_test_split ::
  "env \<Rightarrow> 'a list list \<Rightarrow> size_arg \<Rightarrow> bool \<Rightarrow> int option \<Rightarrow> error + ('a list \<times> 'a list) list" where
  "train_test_split env arrays test_size shuffle random_state =
     (if arrays = [] then Inl (ValueError ''At least one array required as input'')
      else if \<not> list_all (\<lambda>a. length a = length (hd arrays)) arrays
      then Inl (ValueError ''Found input variables with inconsistent numbers of samples'')
      else
        let n_samples = length (hd arrays) in
        case validate_shuffle_split n_samples test_size of Inl e \<Rightarrow> Inl e
        | Inr (n_train, n_test) \<Rightarrow>
        case split_indices env n_samples n_train n_test shuffle random_state of Inl e \<Rightarrow> Inl e
        | Inr (train, test) \<Rightarrow> collect (map (index_array train test) arrays))"

section \<open>Loaders\<close>

text \<open>
  The argument \<^verbatim>\<open>load_dir\<close> is any Python object. Lines 48 to 51 and 92 to 95:
  \<^verbatim>\<open>isinstance(load_dir, (Path, str))\<close>, then \<^verbatim>\<open>Path(load_dir)\<close>, else \<open>TypeError\<close>.
\<close>

datatype pyobj =
    PyNone
  | PyBool bool
  | PyInt int
  | PyFloat rat
  | PyStr string
  | PyPath string
  | PyList "pyobj list"

definition as_path :: "pyobj \<Rightarrow> error + string" where
  "as_path load_dir =
     (case load_dir of
        PyPath p \<Rightarrow> Inr p
      | PyStr p \<Rightarrow> Inr p
      | _ \<Rightarrow> Inl (TypeError ''load_dir must be Path or str''))"

text \<open>
  File I/O is recorded: a loader is a function from the events so far to its result, or the
  exception that ended it, and the events after it. An exception ends the loader where it is
  raised.
\<close>

datatype event = Glob string string | Open string

type_synonym 'a io = "event list \<Rightarrow> (error + 'a) \<times> event list"

definition io_return :: "'a \<Rightarrow> 'a io" where
  "io_return v tr = (Inr v, tr)"

definition lift :: "error + 'a \<Rightarrow> 'a io" where
  "lift r tr = (r, tr)"

definition io_bind :: "'a io \<Rightarrow> ('a \<Rightarrow> 'b io) \<Rightarrow> 'b io" where
  "io_bind m f tr = (case m tr of (Inl e, tr') \<Rightarrow> (Inl e, tr') | (Inr v, tr') \<Rightarrow> f v tr')"

text \<open>A \<^verbatim>\<open>for\<close> loop over a list that updates the loop's variables \<open>s\<close>.\<close>

fun for_each :: "('s \<Rightarrow> 'a \<Rightarrow> 's io) \<Rightarrow> 'a list \<Rightarrow> 's \<Rightarrow> 's io" where
  "for_each body [] s tr = (Inr s, tr)"
| "for_each body (a # as) s tr =
     (case body s a tr of
        (Inl e, tr') \<Rightarrow> (Inl e, tr')
      | (Inr s', tr') \<Rightarrow> for_each body as s' tr')"

definition joinpath :: "string \<Rightarrow> string \<Rightarrow> string" where
  "joinpath d rel = d @ ''/'' @ rel"

definition path_name :: "string \<Rightarrow> string" where
  "path_name p = last (split ''/'' p)"

definition glob_io :: "env \<Rightarrow> string \<Rightarrow> string \<Rightarrow> string list io" where
  "glob_io env d pattern tr = (Inr (glob env d pattern), tr @ [Glob d pattern])"

text \<open>Lines 37 to 39.\<close>

definition load_image :: "env \<Rightarrow> string \<Rightarrow> image io" where
  "load_image env filename tr =
     (case image_open env filename of
        None \<Rightarrow> (Inl (FileNotFoundError filename), tr @ [Open filename])
      | Some img \<Rightarrow> (Inr img, tr @ [Open filename]))"

subsection \<open>\<^verbatim>\<open>load_kitti_semantics_dataset\<close>\<close>

text \<open>The body of the loop of lines 64 to 71; the loop variables are the lists \<open>X\<close>, \<open>Y\<close>.\<close>

definition semantics_train_step ::
  "env \<Rightarrow> string \<Rightarrow> tensor list \<times> tensor list \<Rightarrow> string \<Rightarrow> (tensor list \<times> tensor list) io" where
  "semantics_train_step env load_dir acc filename =
     io_bind (load_image env filename) (\<lambda>x.
     io_bind (lift (preprocess_c env x)) (\<lambda>x.
     io_bind (load_image env
        (joinpath load_dir (''training/semantic_rgb/'' @ path_name filename))) (\<lambda>y.
     io_bind (lift (preprocess_c env y)) (\<lambda>y.
     io_return (fst acc @ [x], snd acc @ [y])))))"

text \<open>The body of the loop of lines 79 to 83.\<close>

definition semantics_test_step ::
  "env \<Rightarrow> tensor list \<times> tensor list \<Rightarrow> string \<Rightarrow> (tensor list \<times> tensor list) io" where
  "semantics_test_step env acc filename =
     io_bind (load_image env filename) (\<lambda>x.
     io_bind (lift (preprocess_c env x)) (\<lambda>x.
     io_return (fst acc @ [x], snd acc @ [zeros_like x])))"

definition load_kitti_semantics_dataset ::
  "env \<Rightarrow> pyobj \<Rightarrow> size_arg \<Rightarrow> bool \<Rightarrow> int option
     \<Rightarrow> (KittiSemanticsDataset \<times> KittiSemanticsDataset \<times> KittiSemanticsDataset) io" where
  "load_kitti_semantics_dataset env load_dir val_ratio shuffle random_state =
     io_bind (lift (as_path load_dir)) (\<lambda>load_dir.
     io_bind (glob_io env load_dir ''training/image_2/*.png'') (\<lambda>files.
     io_bind (for_each (semantics_train_step env load_dir) files ([], [])) (\<lambda>xy.
     io_bind (lift (train_test_split env [fst xy, snd xy] val_ratio shuffle random_state))
       (\<lambda>parts.
     case parts of
       [(x_train, x_val), (y_train, y_val)] \<Rightarrow>
         io_bind (glob_io env load_dir ''testing/image_2/*.png'') (\<lambda>files.
         io_bind (for_each (semantics_test_step env) files ([], [])) (\<lambda>xy_test.
         io_bind (lift (KittiSemanticsDataset_init x_train y_train)) (\<lambda>train_dataset.
         io_bind (lift (KittiSemanticsDataset_init x_val y_val)) (\<lambda>val_dataset.
         io_bind (lift (KittiSemanticsDataset_init (fst xy_test) (snd xy_test))) (\<lambda>test_dataset.
         io_return (train_dataset, val_dataset, test_dataset))))))
     | _ \<Rightarrow> lift (Inl (ValueError ''not enough values to unpack''))))))"

subsection \<open>\<^verbatim>\<open>load_kitti_depth_dataset\<close>\<close>

text \<open>
  The body of the loop of lines 118 to 136; the loop variables are the four lists
  \<open>X_color\<close>, \<open>X_sensor\<close>, \<open>X_mask\<close>, \<open>Y\<close>. The mask is generated from the sparse-depth image
  before that image is converted and preprocessed.
\<close>

type_synonym depth_lists = "tensor list \<times> tensor list \<times> tensor list \<times> tensor list"

definition depth_train_step :: "env \<Rightarrow> string \<Rightarrow> depth_lists \<Rightarrow> string \<Rightarrow> depth_lists io" where
  "depth_train_step env load_dir acc filename =
     (case acc of (x_color, x_sensor, x_mask, ys) \<Rightarrow>
     io_bind (load_image env filename) (\<lambda>x_c.
     io_bind (lift (preprocess_c env x_c)) (\<lambda>x_c.
     io_bind (lift (prefix_suffix (path_name filename))) (\<lambda>ps.
     io_bind (load_image env (joinpath load_dir (velodyne_raw_path ps))) (\<lambda>x_s.
     let x_m = generate_mask x_s in
     io_bind (lift (preprocess_d env (convert env ''F'' x_s))) (\<lambda>x_s.
     io_bind (lift (preprocess_d env (convert env ''F'' x_m))) (\<lambda>x_m.
     io_bind (load_image env (joinpath load_dir (groundtruth_depth_path ps))) (\<lambda>y.
     io_bind (lift (preprocess_d env (convert env ''F'' y))) (\<lambda>y.
     io_return (x_color @ [x_c], x_sensor @ [x_s], x_mask @ [x_m], ys @ [y]))))))))))"

text \<open>The body of the loop of lines 150 to 163.\<close>

definition depth_test_step :: "env \<Rightarrow> string \<Rightarrow> depth_lists \<Rightarrow> string \<Rightarrow> depth_lists io" where
  "depth_test_step env load_dir acc filename =
     (case acc of (x_color_test, x_sensor_test, x_mask_test, y_test) \<Rightarrow>
     io_bind (load_image env filename) (\<lambda>x_c.
     io_bind (lift (preprocess_c env x_c)) (\<lambda>x_c.
     io_bind (load_image env (joinpath load_dir
        (''test_depth_completion_anonymous/velodyne_raw/'' @ path_name filename))) (\<lambda>x_s.
     let x_m = generate_mask x_s in
     io_bind (lift (preprocess_d env (convert env ''F'' x_s))) (\<lambda>x_s.
     io_bind (lift (preprocess_d env (convert env ''F'' x_m))) (\<lambda>x_m.
     io_return (x_color_test @ [x_c], x_sensor_test @ [x_s], x_mask_test @ [x_m],
        y_test @ [zeros_like x_c])))))))"

text \<open>With \<^verbatim>\<open>train=True\<close> the loader returns two datasets, otherwise one.\<close>

datatype depth_result =
    TrainVal KittiDepthDataset KittiDepthDataset
  | Test KittiDepthDataset

definition load_kitti_depth_dataset ::
  "env \<Rightarrow> pyobj \<Rightarrow> size_arg \<Rightarrow> bool \<Rightarrow> int option \<Rightarrow> bool \<Rightarrow> depth_result io" where
  "load_kitti_depth_dataset env load_dir val_ratio shuffle random_state train =
     io_bind (lift (as_path load_dir)) (\<lambda>load_dir.
     if train then
       io_bind (glob_io env load_dir ''val_selection_cropped/image/*.png'') (\<lambda>files.
       io_bind (for_each (depth_train_step env load_dir) files ([], [], [], []))
         (\<lambda>(x_color, x_sensor, x_mask, ys).
       io_bind (lift (train_test_split env [x_color, x_sensor, x_mask, ys]
                        val_ratio shuffle random_state)) (\<lambda>parts.
       case parts of
         [(x_color_train, x_color_val), (x_sensor_train, x_sensor_val),
          (x_mask_train, x_mask_val), (y_train, y_val)] \<Rightarrow>
           io_bind (lift (KittiDepthDataset_init x_color_train x_sensor_train x_mask_train y_train))
             (\<lambda>train_dataset.
           io_bind (lift (KittiDepthDataset_init x_color_val x_sensor_val x_mask_val y_val))
             (\<lambda>val_dataset.
           io_return (TrainVal train_dataset val_dataset)))
       | _ \<Rightarrow> lift (Inl (ValueError ''not enough values to unpack'')))))
     else
       io_bind (glob_io env load_dir ''test_depth_completion_anonymous/image/*.png'') (\<lambda>files.
       io_bind (for_each (depth_test_step env load_dir) files ([], [], [], []))
         (\<lambda>(x_color_test, x_sensor_test, x_mask_test, y_test).
       io_bind (lift (KittiDepthDataset_init x_color_test x_sensor_test x_mask_test y_test))
         (\<lambda>test_dataset.
       io_return (Test test_dataset)))))"

subsection \<open>A small world\<close>

text \<open>
  A directory for trying the loaders: ten color images and their label images for the
  semantics loader, two test images, and for the depth loader ten training triples and two
  test pairs. The last pixel value of an image is the digit in its file name. Color images are one pixel of three channels, depth images are one row of two
  pixels. Resizing keeps the image, tensor conversion moves the channels of a color image
  first and gives a depth image one channel, and the generator reverses the indices and
  then rotates them by its state.
\<close>

definition example_names :: "string list" where
  "example_names = map (\<lambda>k. ''a_image_'' @ [k] @ ''_image_2.png'') ''0123456789''"

definition example_glob :: "string \<Rightarrow> string \<Rightarrow> string list" where
  "example_glob d pattern =
     (if pattern = ''training/image_2/*.png''
      then map (\<lambda>n. d @ ''/training/image_2/'' @ n) example_names
      else if pattern = ''testing/image_2/*.png''
      then map (\<lambda>n. d @ ''/testing/image_2/'' @ n) (take 2 example_names)
      else if pattern = ''val_selection_cropped/image/*.png''
      then map (\<lambda>n. d @ ''/val_selection_cropped/image/'' @ n) example_names
      else if pattern = ''test_depth_completion_anonymous/image/*.png''
      then map (\<lambda>n. d @ ''/test_depth_completion_anonymous/image/'' @ n) (take 2 example_names)
      else [])"

definition example_open :: "string \<Rightarrow> image option" where
  "example_open p =
     (let parts = split ''/'' p in
      if length parts < 2 then None
      else if parts ! (length parts - 2) \<in> {''image_2'', ''semantic_rgb'', ''image''}
      then Some (Arr [Arr [Arr [Elem 51, Elem 102, Elem (of_nat (of_char (p ! (length p - 13)) - 48))]]])
      else if parts ! (length parts - 2) \<in> {''velodyne_raw'', ''groundtruth_depth''}
      then Some (Arr [Arr [Elem 0, Elem (of_nat (of_char (p ! (length p - 13)) - 48))]])
      else None)"

definition example_to_tensor :: "image \<Rightarrow> tensor" where
  "example_to_tensor img =
     (case img of
        Arr [Arr [Arr [r, g, b]]] \<Rightarrow> Arr [Arr [Arr [r]], Arr [Arr [g]], Arr [Arr [b]]]
      | _ \<Rightarrow> Arr [img])"

definition example_env :: env where
  "example_env =
     \<lparr>glob = example_glob,
      image_open = example_open,
      Resize = (\<lambda>size img. img),
      ToTensor = example_to_tensor,
      convert = (\<lambda>mode img. img),
      permutation = (\<lambda>st n. rotate st (rev [0..<n])),
      seed_state = (\<lambda>seed. nat seed),
      global_state = 3\<rparr>"

text \<open>
  What \<^verbatim>\<open>RandomState.permutation(n)\<close> returns: the indices below \<open>n\<close>, each once, in some
  order. \<open>rng_ok\<close> says that the generator of a world does so from every state.
\<close>

definition permutes_indices :: "nat list \<Rightarrow> nat \<Rightarrow> bool" where
  "permutes_indices p n = (distinct p \<and> set p = {0..<n})"

definition rng_ok :: "env \<Rightarrow> bool" where
  "rng_ok env = (\<forall>st n. permutes_indices (permutation env st n) n)"

text \<open>Whether an exception is a \<open>TypeError\<close>, with any message.\<close>

fun is_TypeError :: "error \<Rightarrow> bool" where
  "is_TypeError (TypeError m) = True"
| "is_TypeError e = False"

text \<open>A computation that never ends with a \<open>TypeError\<close>.\<close>

definition no_TypeError :: "'a io \<Rightarrow> bool" where
  "no_TypeError m = (\<forall>tr e tr'. m tr = (Inl e, tr') \<longrightarrow> \<not> is_TypeError e)"

text \<open>
  The equal-length invariant of a depth dataset: the reported length is the length of each
  of the four fields.
\<close>

definition equal_lengths :: "KittiDepthDataset \<Rightarrow> bool" where
  "equal_lengths d =
     (case dataset_len d of
        Inl e \<Rightarrow> False
      | Inr n \<Rightarrow>
          tensor_len (X d) = Inr n \<and> tensor_len (X_sensor d) = Inr n \<and>
          tensor_len (X_mask d) = Inr n \<and> tensor_len (Y d) = Inr n)"

(*THEOREMS*)

section \<open>Properties of \<open>split\<close>\<close>

lemma split_acc_nonempty: "split_acc sep acc s \<noteq> []"
  by (induction sep acc s rule: split_acc.induct) auto

lemma join_Cons: "ps \<noteq> [] \<Longrightarrow> join sep (p # ps) = p @ sep @ join sep ps"
  by (cases ps) auto

lemma join_split_acc: "join sep (split_acc sep acc s) = rev acc @ s"
proof (induction sep acc s rule: split_acc.induct)
  case (1 sep acc)
  show ?case by simp
next
  case (2 sep acc c cs)
  show ?case
  proof (cases "sep \<noteq> [] \<and> prefix sep (c # cs)")
    case True
    then obtain r where r: "c # cs = sep @ r"
      by (auto simp: prefix_def)
    have "join sep (split_acc sep [] (drop (length sep) (c # cs))) = drop (length sep) (c # cs)"
      using 2(1)[OF True] by simp
    then have "join sep (rev acc # split_acc sep [] (drop (length sep) (c # cs)))
         = rev acc @ sep @ drop (length sep) (c # cs)"
      by (simp add: join_Cons split_acc_nonempty)
    also have "\<dots> = rev acc @ c # cs"
      by (simp add: r)
    finally show ?thesis using True by simp
  next
    case False
    then show ?thesis using 2(2)[OF False] by auto
  qed
qed

lemma join_split: "join sep (split sep s) = s"
  by (simp add: split_def join_split_acc)

section \<open>The mask generator\<close>

lemma layout_setitem_gt0: "layout (setitem_gt0 a) = layout a"
  by (simp add: layout_def setitem_gt0_def ndarray.map_comp comp_def)

lemma shape_map_ndarray: "shape (map_ndarray f a) = shape a"
  by (induction a rule: shape.induct) simp_all

lemma ravel_map_ndarray: "ravel (map_ndarray f a) = map f (ravel a)"
proof (induction a)
  case (Elem x)
  show ?case by simp
next
  case (Arr ts)
  then show ?case
    by (simp add: map_concat comp_def cong: map_cong)
qed

text \<open>
  C2 (as stated). A pixel that is not greater than zero is not mapped to 0 when it is negative:
  in the one-row image with pixels 0, -3, 5 the pixel -3 stays -3.
\<close>

theorem generate_mask_negative_pixel:
  "generate_mask (Arr [Arr [Elem 0, Elem (- 3), Elem 5]]) = Arr [Arr [Elem 0, Elem (- 3), Elem 1]]"
  by (simp add: generate_mask_def setitem_gt0_def)

text \<open>
  C2 (amended). For every image the mask has the layout and shape of the image; every pixel
  greater than zero becomes 1 and every other pixel keeps its value. Hence, for an image with
  no negative pixel, every pixel that is not greater than zero is 0 in the mask. Pixels
  0, 0, 5, 0, 3 give 0, 0, 1, 0, 1, and an image of zeros gives itself.
\<close>

theorem generate_mask_threshold:
  "layout (generate_mask im) = layout im \<and>
   shape (generate_mask im) = shape im \<and>
   length (ravel (generate_mask im)) = length (ravel im) \<and>
   (\<forall>i < length (ravel im).
      (ravel im ! i > 0 \<longrightarrow> ravel (generate_mask im) ! i = 1) \<and>
      (\<not> ravel im ! i > 0 \<longrightarrow> ravel (generate_mask im) ! i = ravel im ! i) \<and>
      (ravel im ! i = 0 \<longrightarrow> ravel (generate_mask im) ! i = 0)) \<and>
   ((\<forall>p \<in> set (ravel im). 0 \<le> p) \<longrightarrow>
      ravel (generate_mask im) = map (\<lambda>p. if p > 0 then 1 else 0) (ravel im)) \<and>
   ((\<forall>p \<in> set (ravel im). p = 0) \<longrightarrow> generate_mask im = im) \<and>
   generate_mask (Arr [Arr [Elem 0, Elem 0, Elem 5, Elem 0, Elem 3]])
     = Arr [Arr [Elem 0, Elem 0, Elem 1, Elem 0, Elem 1]]"
proof -
  have r: "ravel (generate_mask im) = map (\<lambda>p. if p > 0 then 1 else p) (ravel im)"
    by (simp add: generate_mask_def setitem_gt0_def ravel_map_ndarray)
  have a: "layout (generate_mask im) = layout im"
    by (simp add: generate_mask_def layout_setitem_gt0)
  have b: "shape (generate_mask im) = shape im"
    by (simp add: generate_mask_def setitem_gt0_def shape_map_ndarray)
  have c: "ravel (generate_mask im) = map (\<lambda>p. if p > 0 then 1 else 0) (ravel im)"
    if "\<forall>p \<in> set (ravel im). 0 \<le> p"
    unfolding r using that by (intro map_cong) auto
  have d: "generate_mask im = im" if z: "\<forall>p \<in> set (ravel im). p = 0"
  proof -
    have "set_ndarray im = set (ravel im)"
      by (induction im) auto
    then have "\<forall>p \<in> set_ndarray im. (if p > 0 then 1 else p) = p"
      using z by auto
    then have "map_ndarray (\<lambda>p. if p > 0 then 1 else p) im = map_ndarray id im"
      by (intro ndarray.map_cong) auto
    then show ?thesis
      by (simp add: generate_mask_def setitem_gt0_def ndarray.map_id)
  qed
  have e: "generate_mask (Arr [Arr [Elem 0, Elem 0, Elem 5, Elem 0, Elem 3]])
     = Arr [Arr [Elem 0, Elem 0, Elem 1, Elem 0, Elem 1]]"
    by (simp add: generate_mask_def setitem_gt0_def)
  show ?thesis
    using a b c d e by (simp add: r)
qed

theorem generate_mask_threshold_witness:
  "ravel (Arr [Arr [Elem 0, Elem 7], Arr [Elem 2, Elem (0::rat)]]) = [0, 7, 2, 0] \<and>
   ravel (generate_mask (Arr [Arr [Elem 0, Elem 7], Arr [Elem 2, Elem 0]])) = [0, 1, 1, 0] \<and>
   ravel (Arr [Arr [Elem 0, Elem 0], Arr [Elem 0, Elem (0::rat)]]) = [0, 0, 0, 0] \<and>
   generate_mask (Arr [Arr [Elem 0, Elem 0], Arr [Elem 0, Elem 0]])
     = Arr [Arr [Elem 0, Elem 0], Arr [Elem 0, Elem 0]] \<and>
   ravel (generate_mask (Arr [Arr [Elem 0, Elem 7], Arr [Elem 2, Elem 0]])) ! 1 = 1"
proof -
  have h1: "\<forall>p \<in> set (ravel (Arr [Arr [Elem 0, Elem 7], Arr [Elem 2, Elem (0::rat)]])). 0 \<le> p"
    by simp
  have h2: "\<forall>p \<in> set (ravel (Arr [Arr [Elem 0, Elem 0], Arr [Elem 0, Elem (0::rat)]])). p = 0"
    by simp
  have h3: "(1::nat) < length (ravel (Arr [Arr [Elem 0, Elem 7], Arr [Elem 2, Elem (0::rat)]]))"
    by simp
  have h4: "ravel (Arr [Arr [Elem 0, Elem 7], Arr [Elem 2, Elem (0::rat)]]) ! 1 > 0"
    by simp
  note t1 = generate_mask_threshold [of "Arr [Arr [Elem 0, Elem 7], Arr [Elem 2, Elem 0]]"]
  note t2 = generate_mask_threshold [of "Arr [Arr [Elem 0, Elem 0], Arr [Elem 0, Elem 0]]"]
  have c1: "ravel (generate_mask (Arr [Arr [Elem 0, Elem 7], Arr [Elem 2, Elem 0]]))
      = map (\<lambda>p. if p > 0 then 1 else 0) (ravel (Arr [Arr [Elem 0, Elem 7], Arr [Elem 2, Elem (0::rat)]]))"
    using t1 h1 by blast
  have c2: "generate_mask (Arr [Arr [Elem 0, Elem 0], Arr [Elem 0, Elem 0]])
     = Arr [Arr [Elem 0, Elem 0], Arr [Elem 0, Elem 0]]"
    using t2 h2 by blast
  have c3: "ravel (generate_mask (Arr [Arr [Elem 0, Elem 7], Arr [Elem 2, Elem 0]])) ! 1 = 1"
    using t1 h3 h4 by blast
  have c4: "ravel (generate_mask (Arr [Arr [Elem 0, Elem 7], Arr [Elem 2, Elem 0]])) = [0, 1, 1, 0]"
    unfolding c1 by simp
  have c5: "ravel (Arr [Arr [Elem 0, Elem 7], Arr [Elem 2, Elem (0::rat)]]) = [0, 7, 2, 0]"
    by simp
  have c6: "ravel (Arr [Arr [Elem 0, Elem 0], Arr [Elem 0, Elem (0::rat)]]) = [0, 0, 0, 0]"
    by simp
  from c5 c4 c6 c2 c3 show ?thesis
    by blast
qed

text \<open>
  C8. The mask generator is idempotent: for every image, the mask of the mask is the mask.
\<close>

theorem generate_mask_idempotent:
  "generate_mask (generate_mask im) = generate_mask im"
proof -
  have "(\<lambda>p::rat. if p > 0 then 1 else p) \<circ> (\<lambda>p. if p > 0 then 1 else p)
      = (\<lambda>p. if p > 0 then 1 else p)"
    by (rule ext) simp
  then show ?thesis
    by (simp add: generate_mask_def setitem_gt0_def ndarray.map_comp)
qed

text \<open>
  C10. \<^verbatim>\<open>generate_mask\<close> does not modify its input image. In every well-formed store
  holding the image, the call returns; afterwards the image's buffer holds the pixels it held
  before, every object allocated before the call is unchanged, and the mask is a new object
  holding \<open>generate_mask\<close> of the pixels. The sparse-depth image that the depth loader
  preprocesses after the call is therefore the one it loaded.
\<close>

theorem generate_mask_st_frame:
  assumes ok: "store_ok s" and img: "objs s img = Some px"
  shows "\<exists>m s'. generate_mask_st img s = Some (m, s') \<and>
           objs s' img = Some px \<and>
           (\<forall>a. a < fresh s \<longrightarrow> objs s' a = objs s a) \<and>
           m \<noteq> img \<and>
           objs s' m = Some (generate_mask px)"
proof -
  have lt: "img < fresh s"
    using ok img by (auto simp: store_ok_def)
  define s1 where "s1 = snd (alloc px s)"
  define s2 where "s2 = s1\<lparr>objs := (objs s1)(fresh s \<mapsto> setitem_gt0 px)\<rparr>"
  define s3 where "s3 = snd (alloc (setitem_gt0 px) s2)"
  have n1: "np_array_st img s = Some (fresh s, s1)"
    by (simp add: np_array_st_def img alloc_def s1_def)
  have o1: "objs s1 (fresh s) = Some px"
    by (simp add: s1_def alloc_def)
  have n2: "setitem_gt0_st (fresh s) s1 = Some s2"
    by (simp add: setitem_gt0_st_def o1 s2_def)
  have o2: "objs s2 (fresh s) = Some (setitem_gt0 px)"
    by (simp add: s2_def)
  have f2: "fresh s2 = Suc (fresh s)"
    by (simp add: s2_def s1_def alloc_def)
  have n3: "fromarray_st (fresh s) s2 = Some (Suc (fresh s), s3)"
    by (simp add: fromarray_st_def o2 alloc_def s3_def f2)
  have g: "generate_mask_st img s = Some (Suc (fresh s), s3)"
    by (simp add: generate_mask_st_def n1 n2 n3)
  have old: "objs s3 a = objs s a" if "a < fresh s" for a
    using that by (simp add: s3_def s2_def s1_def alloc_def)
  have new: "objs s3 (Suc (fresh s)) = Some (generate_mask px)"
    by (simp add: s3_def alloc_def f2 generate_mask_def)
  show ?thesis
    using g old new lt img by auto
qed

theorem generate_mask_st_frame_witness:
  "objs \<lparr>objs = (\<lambda>_. None)(0 \<mapsto> Arr [Arr [Elem 0, Elem 5]]), fresh = 1\<rparr> 0
     = Some (Arr [Arr [Elem 0, Elem 5]]) \<and>
   (\<exists>m s'. generate_mask_st 0 \<lparr>objs = (\<lambda>_. None)(0 \<mapsto> Arr [Arr [Elem 0, Elem 5]]), fresh = 1\<rparr>
              = Some (m, s') \<and>
           objs s' 0 = Some (Arr [Arr [Elem 0, Elem 5]]) \<and>
           m \<noteq> 0 \<and>
           objs s' m = Some (Arr [Arr [Elem 0, Elem 1]]))"
proof -
  have ok: "store_ok \<lparr>objs = (\<lambda>_. None)(0 \<mapsto> Arr [Arr [Elem 0, Elem 5]]), fresh = 1\<rparr>"
    by (simp add: store_ok_def)
  have img: "objs \<lparr>objs = (\<lambda>_. None)(0 \<mapsto> Arr [Arr [Elem 0, Elem 5]]), fresh = 1\<rparr> 0
     = Some (Arr [Arr [Elem 0, Elem 5]])"
    by simp
  have gm: "generate_mask (Arr [Arr [Elem 0, Elem 5]]) = Arr [Arr [Elem 0, Elem 1]]"
    by (simp add: generate_mask_def setitem_gt0_def)
  show ?thesis
    using generate_mask_st_frame [OF ok img] img unfolding gm by blast
qed
section \<open>Dataset containers: properties\<close>

lemma stack_Inr: "stack ts = Inr t \<Longrightarrow> t = Arr ts \<and> ts \<noteq> []"
  by (auto simp: stack_def split: list.splits if_splits)

section \<open>The split: sizes and indices\<close>

lemma validate_shuffle_split_Inr:
  assumes "validate_shuffle_split n ts = Inr (n_train, n_test)"
  shows "n_train + n_test = n \<and> 0 < n_train \<and> 0 < n_test"
proof -
  define t where "t = (case ts of SizeNone \<Rightarrow> SizeFloat (1 / 4) | t \<Rightarrow> t)"
  obtain k where k: "(case t of
              SizeInt k \<Rightarrow>
                if k \<ge> int n \<or> k \<le> 0 then Inl (ValueError ''test_size'') else Inr k
            | SizeFloat f \<Rightarrow>
                if f \<le> 0 \<or> f \<ge> 1 then Inl (ValueError ''test_size'')
                else Inr \<lceil>f * of_nat n\<rceil>
            | SizeNone \<Rightarrow> Inl (ValueError ''test_size'')) = Inr k"
    and nz: "int n - k \<noteq> 0" and tr: "n_train = nat (int n - k)" and te: "n_test = nat k"
    using assms unfolding validate_shuffle_split_def Let_def t_def [symmetric]
    by (auto split: sum.splits if_splits)
  have b: "0 \<le> k \<and> k \<le> int n \<and> (n \<noteq> 0 \<longrightarrow> 0 < k)"
  proof (cases t)
    case SizeNone
    then show ?thesis using k by simp
  next
    case (SizeInt j)
    then show ?thesis using k by (auto split: if_splits)
  next
    case (SizeFloat f)
    then have f: "0 < f" "f < 1" and kf: "k = \<lceil>f * of_nat n\<rceil>"
      using k by (auto split: if_splits)
    have "0 \<le> f * of_nat n" using f by simp
    then have k0: "0 \<le> k" unfolding kf by linarith
    have "f * of_nat n \<le> 1 * of_nat n"
      by (rule mult_right_mono) (use f in auto)
    then have "f * of_nat n \<le> of_nat n" by simp
    then have "\<lceil>f * of_nat n\<rceil> \<le> \<lceil>(of_nat n :: rat)\<rceil>" by (rule ceiling_mono)
    then have k1: "k \<le> int n" unfolding kf by simp
    have "0 < k" if "n \<noteq> 0"
    proof -
      have "0 < f * of_nat n" using f that by simp
      then show ?thesis unfolding kf by linarith
    qed
    then show ?thesis using k0 k1 by simp
  qed
  have "n \<noteq> 0" using b nz by auto
  then have "0 < k" "k < int n" using b nz by auto
  then show ?thesis using tr te by auto
qed

lemma validate_shuffle_split_float:
  assumes "validate_shuffle_split n (SizeFloat f) = Inr (n_train, n_test)"
  shows "n_test = nat \<lceil>f * of_nat n\<rceil>"
  using assms by (auto simp: validate_shuffle_split_def Let_def split: if_splits)

lemma permutes_indices_length: "permutes_indices p n \<Longrightarrow> length p = n"
  unfolding permutes_indices_def
  by (metis card_atLeastLessThan diff_zero distinct_card)

lemma split_indices_Inr:
  assumes "split_indices env n n_train n_test shuffle rs = Inr (train, test)"
    and "n_train + n_test = n"
    and "shuffle \<longrightarrow> rng_ok env"
  shows "length train = n_train \<and> length test = n_test \<and>
         distinct (train @ test) \<and> set (train @ test) = {0..<n}"
proof (cases shuffle)
  case False
  then have "train = [0..<n_train]" "test = [n_train..<n_train + n_test]"
    using assms(1) by (auto simp: split_indices_def)
  then show ?thesis using assms(2) by auto
next
  case True
  then obtain st where st: "check_random_state env rs = Inr st"
    and tr: "train = take n_train (drop n_test (permutation env st n))"
    and te: "test = take n_test (permutation env st n)"
    using assms(1) by (auto simp: split_indices_def Let_def split: sum.splits)
  let ?p = "permutation env st n"
  have p: "permutes_indices ?p n" using True assms(3) by (simp add: rng_ok_def)
  then have len: "length ?p = n" by (rule permutes_indices_length)
  have tr': "train = drop n_test ?p" using tr len assms(2) by simp
  have eq: "test @ train = ?p" using te tr' by simp
  have d: "distinct (test @ train)" "set (test @ train) = {0..<n}"
    using p unfolding eq permutes_indices_def by auto
  have "length train = n_train" "length test = n_test"
    using tr' te len assms(2) by auto
  moreover have "distinct (train @ test)" using d(1) by auto
  moreover have "set (train @ test) = {0..<n}" using d(2) by auto
  ultimately show ?thesis by simp
qed

lemma collect_map_Inr:
  "collect (map f xs) = Inr vs \<Longrightarrow> vs = map (\<lambda>x. projr (f x)) xs \<and> (\<forall>x \<in> set xs. \<not> isl (f x))"
  apply (induction xs arbitrary: vs)
  apply (auto split: sum.splits)
  done

lemma index_array_Inr:
  "index_array train test a = Inr v \<Longrightarrow> v = (map (\<lambda>i. a ! i) train, map (\<lambda>i. a ! i) test)"
  by (auto simp: index_array_def safe_indexing_def split: sum.splits if_splits)

lemma train_test_split_Inr:
  assumes "train_test_split env arrays ts shuffle rs = Inr parts"
    and "shuffle \<longrightarrow> rng_ok env"
  shows "\<exists>train test.
           distinct (train @ test) \<and> set (train @ test) = {0..<length (hd arrays)} \<and>
           length train + length test = length (hd arrays) \<and>
           0 < length train \<and> 0 < length test \<and>
           (\<forall>f. ts = SizeFloat f \<longrightarrow> length test = nat \<lceil>f * of_nat (length (hd arrays))\<rceil>) \<and>
           split_indices env (length (hd arrays)) (length train) (length test) shuffle rs = Inr (train, test) \<and>
           parts = map (\<lambda>a. (map (\<lambda>i. a ! i) train, map (\<lambda>i. a ! i) test)) arrays"
proof -
  let ?n = "length (hd arrays)"
  from assms(1) obtain n_train n_test train test where
    v: "validate_shuffle_split ?n ts = Inr (n_train, n_test)"
    and si: "split_indices env ?n n_train n_test shuffle rs = Inr (train, test)"
    and c: "collect (map (index_array train test) arrays) = Inr parts"
    by (auto simp: train_test_split_def Let_def split: if_splits sum.splits prod.splits)
  note vv = validate_shuffle_split_Inr[OF v]
  have s: "length train = n_train \<and> length test = n_test \<and>
         distinct (train @ test) \<and> set (train @ test) = {0..<?n}"
    using split_indices_Inr[OF si _ assms(2)] vv by simp
  have fl: "\<forall>f. ts = SizeFloat f \<longrightarrow> length test = nat \<lceil>f * of_nat ?n\<rceil>"
    using v s validate_shuffle_split_float by blast
  have pr: "parts = map (\<lambda>a. projr (index_array train test a)) arrays"
    and ok: "\<forall>a \<in> set arrays. \<not> isl (index_array train test a)"
    using collect_map_Inr[OF c] by auto
  have "projr (index_array train test a) = (map (\<lambda>i. a ! i) train, map (\<lambda>i. a ! i) test)"
    if mem: "a \<in> set arrays" for a
  proof -
    obtain v where v: "index_array train test a = Inr v"
      using ok mem by (cases "index_array train test a") auto
    show ?thesis using index_array_Inr[OF v] v by simp
  qed
  then have "parts = map (\<lambda>a. (map (\<lambda>i. a ! i) train, map (\<lambda>i. a ! i) test)) arrays"
    unfolding pr by (intro map_cong) auto
  then show ?thesis using s vv fl si by blast
qed

section \<open>Loops and exceptions\<close>

lemma io_bind_Inr:
  "io_bind m f tr = (Inr v, tr') \<longleftrightarrow> (\<exists>u tr1. m tr = (Inr u, tr1) \<and> f u tr1 = (Inr v, tr'))"
  by (auto simp: io_bind_def split: prod.splits sum.splits)

lemma lift_Inr: "lift r tr = (Inr v, tr') \<longleftrightarrow> r = Inr v \<and> tr' = tr"
  by (auto simp: lift_def)

lemma io_return_Inr: "io_return u tr = (Inr v, tr') \<longleftrightarrow> u = v \<and> tr' = tr"
  by (auto simp: io_return_def)

lemma glob_io_Inr:
  "glob_io env d pat tr = (Inr fs, tr') \<longleftrightarrow> fs = glob env d pat \<and> tr' = tr @ [Glob d pat]"
  by (auto simp: glob_io_def)

lemma for_each_count:
  assumes "for_each body as s tr = (Inr s', tr')"
    and "Q s k"
    and "\<And>s a tr s' tr' k. Q s k \<Longrightarrow> body s a tr = (Inr s', tr') \<Longrightarrow> Q s' (Suc k)"
  shows "Q s' (k + length as)"
  using assms(1,2)
proof (induction as arbitrary: s tr k)
  case Nil
  then show ?case by simp
next
  case (Cons a as)
  from Cons.prems(1) obtain s1 tr1 where b: "body s a tr = (Inr s1, tr1)"
    and r: "for_each body as s1 tr1 = (Inr s', tr')"
    by (auto split: prod.splits sum.splits)
  have "Q s1 (Suc k)" using assms(3)[OF Cons.prems(2) b] .
  from Cons.IH[OF r this] show ?case by simp
qed

lemma for_each_invariant:
  assumes "for_each body as s tr = (Inr s', tr')"
    and "P s"
    and "\<And>s a tr s' tr'. P s \<Longrightarrow> body s a tr = (Inr s', tr') \<Longrightarrow> P s'"
  shows "P s'"
  using for_each_count[where Q = "\<lambda>s k. P s", OF assms(1) assms(2)] assms(3) by blast

lemma semantics_train_step_lengths:
  assumes "semantics_train_step env d acc f tr = (Inr acc', tr')"
    and "length (fst acc) = k \<and> length (snd acc) = k"
  shows "length (fst acc') = Suc k \<and> length (snd acc') = Suc k"
  using assms
  by (auto simp: semantics_train_step_def io_bind_Inr lift_Inr io_return_Inr)

lemma semantics_test_step_zeros:
  assumes "semantics_test_step env acc f tr = (Inr acc', tr')"
    and "snd acc = map zeros_like (fst acc)"
  shows "snd acc' = map zeros_like (fst acc')"
  using assms
  by (auto simp: semantics_test_step_def io_bind_Inr lift_Inr io_return_Inr)

lemma depth_train_step_lengths:
  assumes "depth_train_step env d acc f tr = (Inr acc', tr')"
    and "case acc of (c, s, m, y) \<Rightarrow> length c = k \<and> length s = k \<and> length m = k \<and> length y = k"
  shows "case acc' of (c, s, m, y) \<Rightarrow>
           length c = Suc k \<and> length s = Suc k \<and> length m = Suc k \<and> length y = Suc k"
  using assms
  by (auto simp: depth_train_step_def io_bind_Inr lift_Inr io_return_Inr Let_def
      split: prod.splits)

lemma depth_test_step_zeros:
  assumes "depth_test_step env d acc f tr = (Inr acc', tr')"
    and "case acc of (c, s, m, y) \<Rightarrow> y = map zeros_like c"
  shows "case acc' of (c, s, m, y) \<Rightarrow> y = map zeros_like c"
  using assms
  by (auto simp: depth_test_step_def io_bind_Inr lift_Inr io_return_Inr Let_def
      split: prod.splits)

section \<open>What a loader that returns has done\<close>

lemma load_kitti_semantics_dataset_Inr:
  assumes "load_kitti_semantics_dataset env ld vr sh rs tr = (Inr (trn, val, tst), tr')"
  obtains d xy x_train x_val y_train y_val xyt tr1 where
     "as_path ld = Inr d"
     "for_each (semantics_train_step env d) (glob env d ''training/image_2/*.png'') ([], [])
        (tr @ [Glob d ''training/image_2/*.png'']) = (Inr xy, tr1)"
     "train_test_split env [fst xy, snd xy] vr sh rs = Inr [(x_train, x_val), (y_train, y_val)]"
     "for_each (semantics_test_step env) (glob env d ''testing/image_2/*.png'') ([], [])
        (tr1 @ [Glob d ''testing/image_2/*.png'']) = (Inr xyt, tr')"
     "KittiSemanticsDataset_init x_train y_train = Inr trn"
     "KittiSemanticsDataset_init x_val y_val = Inr val"
     "KittiSemanticsDataset_init (fst xyt) (snd xyt) = Inr tst"
  using assms unfolding load_kitti_semantics_dataset_def
  apply (simp only: io_bind_Inr lift_Inr glob_io_Inr)
  apply (elim exE conjE)
  apply (simp split: list.splits prod.splits add: io_bind_Inr lift_Inr glob_io_Inr io_return_Inr)
  apply (elim exE conjE)
  apply (simp split: prod.splits)
  done

lemma unpack4_Inr:
  assumes "(case parts of
       [(a1, b1), (a2, b2), (a3, b3), (a4, b4)] \<Rightarrow> F a1 b1 a2 b2 a3 b3 a4 b4
     | _ \<Rightarrow> lift (Inl e)) tr = (Inr r, tr')"
  obtains a1 b1 a2 b2 a3 b3 a4 b4 where
    "parts = [(a1, b1), (a2, b2), (a3, b3), (a4, b4)]"
    "F a1 b1 a2 b2 a3 b3 a4 b4 tr = (Inr r, tr')"
  using assms by (auto simp: lift_def split: list.splits prod.splits)

lemma load_kitti_depth_dataset_train_Inr:
  assumes "load_kitti_depth_dataset env ld vr sh rs True tr = (Inr r, tr')"
  obtains d c s m y c_train c_val s_train s_val m_train m_val y_train y_val trn val where
     "as_path ld = Inr d"
     "for_each (depth_train_step env d) (glob env d ''val_selection_cropped/image/*.png'')
        ([], [], [], []) (tr @ [Glob d ''val_selection_cropped/image/*.png''])
        = (Inr (c, s, m, y), tr')"
     "train_test_split env [c, s, m, y] vr sh rs
        = Inr [(c_train, c_val), (s_train, s_val), (m_train, m_val), (y_train, y_val)]"
     "KittiDepthDataset_init c_train s_train m_train y_train = Inr trn"
     "KittiDepthDataset_init c_val s_val m_val y_val = Inr val"
     "r = TrainVal trn val"
proof -
  from assms obtain d acc tr1 parts where d: "as_path ld = Inr d"
    and fe: "for_each (depth_train_step env d) (glob env d ''val_selection_cropped/image/*.png'')
        ([], [], [], []) (tr @ [Glob d ''val_selection_cropped/image/*.png'']) = (Inr acc, tr1)"
    and sp: "(case acc of (c, s, m, y) \<Rightarrow> train_test_split env [c, s, m, y] vr sh rs) = Inr parts"
    and fin: "(case parts of
         [(x_color_train, x_color_val), (x_sensor_train, x_sensor_val),
          (x_mask_train, x_mask_val), (y_train, y_val)] \<Rightarrow>
           io_bind (lift (KittiDepthDataset_init x_color_train x_sensor_train x_mask_train y_train))
             (\<lambda>train_dataset.
           io_bind (lift (KittiDepthDataset_init x_color_val x_sensor_val x_mask_val y_val))
             (\<lambda>val_dataset.
           io_return (TrainVal train_dataset val_dataset)))
       | _ \<Rightarrow> lift (Inl (ValueError ''not enough values to unpack''))) tr1 = (Inr r, tr')"
    unfolding load_kitti_depth_dataset_def
    by (auto simp: io_bind_Inr lift_Inr glob_io_Inr split: prod.splits)
  obtain c s m y where acc: "acc = (c, s, m, y)"
    by (cases acc) auto
  from fin obtain a1 b1 a2 b2 a3 b3 a4 b4 where
    p: "parts = [(a1, b1), (a2, b2), (a3, b3), (a4, b4)]"
    and f: "io_bind (lift (KittiDepthDataset_init a1 a2 a3 a4))
             (\<lambda>train_dataset.
           io_bind (lift (KittiDepthDataset_init b1 b2 b3 b4))
             (\<lambda>val_dataset.
           io_return (TrainVal train_dataset val_dataset))) tr1 = (Inr r, tr')"
    by (rule unpack4_Inr)
  from f obtain trn val where "KittiDepthDataset_init a1 a2 a3 a4 = Inr trn"
    "KittiDepthDataset_init b1 b2 b3 b4 = Inr val" "r = TrainVal trn val" "tr' = tr1"
    by (auto simp: io_bind_Inr lift_Inr io_return_Inr)
  then show ?thesis
    using that[of d c s m y a1 b1 a2 b2 a3 b3 a4 b4 trn val] d fe sp acc p by simp
qed

lemma load_kitti_depth_dataset_test_Inr:
  assumes "load_kitti_depth_dataset env ld vr sh rs False tr = (Inr r, tr')"
  obtains d c s m y tst where
     "as_path ld = Inr d"
     "for_each (depth_test_step env d) (glob env d ''test_depth_completion_anonymous/image/*.png'')
        ([], [], [], []) (tr @ [Glob d ''test_depth_completion_anonymous/image/*.png''])
        = (Inr (c, s, m, y), tr')"
     "KittiDepthDataset_init c s m y = Inr tst"
     "r = Test tst"
  using assms unfolding load_kitti_depth_dataset_def
  apply (simp only: io_bind_Inr lift_Inr glob_io_Inr if_False)
  apply (elim exE conjE)
  apply (simp split: list.splits prod.splits add: io_bind_Inr lift_Inr glob_io_Inr io_return_Inr)
  apply (elim exE conjE)
  apply (simp split: prod.splits)
  done

section \<open>Test targets\<close>

lemma zeros_like_Arr: "zeros_like (Arr xs) = Arr (map zeros_like xs)"
  by (simp add: zeros_like_def)

lemma zeros_like_facts:
  "shape (zeros_like t) = shape t \<and> layout (zeros_like t) = layout t \<and>
   (\<forall>v \<in> set (ravel (zeros_like t)). v = 0)"
  by (simp add: zeros_like_def shape_map_ndarray ravel_map_ndarray layout_def
      ndarray.map_comp comp_def)

lemma KittiSemanticsDataset_init_Inr:
  "KittiSemanticsDataset_init xs ys = Inr d \<Longrightarrow> X d = Arr xs \<and> Y d = Arr ys"
  by (auto simp: KittiSemanticsDataset_init_def split: sum.splits dest!: stack_Inr)

lemma KittiDepthDataset_init_Inr:
  "KittiDepthDataset_init c s m y = Inr d \<Longrightarrow>
     X d = Arr c \<and> X_sensor d = Arr s \<and> X_mask d = Arr m \<and> Y d = Arr y"
  by (auto simp: KittiDepthDataset_init_def KittiSemanticsDataset_init_def
      split: sum.splits dest!: stack_Inr)

text \<open>
  C5. For every test sample of the semantics loader and of the depth loader with
  \<^verbatim>\<open>train=False\<close>, the target is \<^verbatim>\<open>zeros_like\<close> of the sample's preprocessed color input:
  the targets of a returned test dataset are the color tensors with every entry zero, so they
  have the shape of the color tensors, whatever the shape of the sparse-depth tensors is.
\<close>

theorem test_targets_zero:
  "(load_kitti_semantics_dataset env ld vr sh rs tr = (Inr (trn, val, tst), tr') \<longrightarrow>
      (\<exists>xs. X tst = Arr xs \<and> Y tst = Arr (map zeros_like xs)) \<and>
      Y tst = zeros_like (X tst) \<and> shape (Y tst) = shape (X tst) \<and>
      layout (Y tst) = layout (X tst) \<and> (\<forall>v \<in> set (ravel (Y tst)). v = 0)) \<and>
   (load_kitti_depth_dataset env ld vr sh rs False tr = (Inr r, tr') \<longrightarrow>
      (\<exists>d xs. r = Test d \<and> X d = Arr xs \<and> Y d = Arr (map zeros_like xs) \<and>
         Y d = zeros_like (X d) \<and> shape (Y d) = shape (X d) \<and>
         layout (Y d) = layout (X d) \<and> (\<forall>v \<in> set (ravel (Y d)). v = 0)))"
proof (intro conjI impI)
  assume a: "load_kitti_semantics_dataset env ld vr sh rs tr = (Inr (trn, val, tst), tr')"
  from a obtain d xyt tr1 where
    fe: "for_each (semantics_test_step env) (glob env d ''testing/image_2/*.png'') ([], [])
        (tr1 @ [Glob d ''testing/image_2/*.png'']) = (Inr xyt, tr')"
    and i: "KittiSemanticsDataset_init (fst xyt) (snd xyt) = Inr tst"
    by (rule load_kitti_semantics_dataset_Inr)
  have z: "snd xyt = map zeros_like (fst xyt)"
    by (rule for_each_invariant[OF fe, where P = "\<lambda>acc. snd acc = map zeros_like (fst acc)"])
       (auto dest: semantics_test_step_zeros)
  have xy: "X tst = Arr (fst xyt)" "Y tst = Arr (map zeros_like (fst xyt))"
    using KittiSemanticsDataset_init_Inr[OF i] z by simp_all
  then have e: "Y tst = zeros_like (X tst)" by (simp add: zeros_like_Arr)
  show "\<exists>xs. X tst = Arr xs \<and> Y tst = Arr (map zeros_like xs)" using xy by blast
  show "Y tst = zeros_like (X tst)" by (rule e)
  show "shape (Y tst) = shape (X tst)" unfolding e using zeros_like_facts by blast
  show "layout (Y tst) = layout (X tst)" unfolding e using zeros_like_facts by blast
  show "\<forall>v \<in> set (ravel (Y tst)). v = 0" unfolding e using zeros_like_facts by blast
next
  assume a: "load_kitti_depth_dataset env ld vr sh rs False tr = (Inr r, tr')"
  from a obtain d c s m y tst where
    fe: "for_each (depth_test_step env d) (glob env d ''test_depth_completion_anonymous/image/*.png'')
        ([], [], [], []) (tr @ [Glob d ''test_depth_completion_anonymous/image/*.png''])
        = (Inr (c, s, m, y), tr')"
    and i: "KittiDepthDataset_init c s m y = Inr tst"
    and r: "r = Test tst"
    by (rule load_kitti_depth_dataset_test_Inr)
  have "case (c, s, m, y) of (c, s, m, y) \<Rightarrow> y = map zeros_like c"
    by (rule for_each_invariant[OF fe,
          where P = "\<lambda>acc. case acc of (c, s, m, y) \<Rightarrow> y = map zeros_like c"])
       (auto dest: depth_test_step_zeros)
  then have z: "y = map zeros_like c" by simp
  have xy: "X tst = Arr c" "Y tst = Arr (map zeros_like c)"
    using KittiDepthDataset_init_Inr[OF i] z by simp_all
  then have e: "Y tst = zeros_like (X tst)" by (simp add: zeros_like_Arr)
  have "shape (Y tst) = shape (X tst)" "layout (Y tst) = layout (X tst)"
    "\<forall>v \<in> set (ravel (Y tst)). v = 0"
    unfolding e using zeros_like_facts by blast+
  then show "\<exists>d xs. r = Test d \<and> X d = Arr xs \<and> Y d = Arr (map zeros_like xs) \<and>
         Y d = zeros_like (X d) \<and> shape (Y d) = shape (X d) \<and>
         layout (Y d) = layout (X d) \<and> (\<forall>v \<in> set (ravel (Y d)). v = 0)"
    using r xy e by blast
qed

theorem test_targets_zero_witness:
  "(\<exists>tst tr'. load_kitti_depth_dataset example_env (PyStr ''d'') (SizeFloat (1 / 5)) True None False []
        = (Inr (Test tst), tr') \<and>
      shape (X tst) = [2, 3, 1, 1] \<and> shape (X_sensor tst) = [2, 1, 1, 2] \<and>
      shape (Y tst) = [2, 3, 1, 1] \<and> Y tst = zeros_like (X tst)) \<and>
   (\<exists>trn val tst tr'. load_kitti_semantics_dataset example_env (PyStr ''d'') (SizeFloat (1 / 5)) True
        (Some 0) [] = (Inr (trn, val, tst), tr') \<and>
      shape (X tst) = [2, 3, 1, 1] \<and> shape (Y tst) = [2, 3, 1, 1] \<and> Y tst = zeros_like (X tst))"
proof -
  have "case load_kitti_depth_dataset example_env (PyStr ''d'') (SizeFloat (1 / 5)) True None False [] of
      (Inr (Test d), tr') \<Rightarrow> shape (X d) = [2, 3, 1, 1] \<and> shape (X_sensor d) = [2, 1, 1, 2]
    | _ \<Rightarrow> False"
    by code_simp
  then obtain tst tr' where
    d: "load_kitti_depth_dataset example_env (PyStr ''d'') (SizeFloat (1 / 5)) True None False []
        = (Inr (Test tst), tr')"
    and ds: "shape (X tst) = [2, 3, 1, 1]" "shape (X_sensor tst) = [2, 1, 1, 2]"
    by (auto split: prod.splits sum.splits depth_result.splits)
  have dz: "Y tst = zeros_like (X tst) \<and> shape (Y tst) = shape (X tst)"
    using test_targets_zero [where env = example_env and ld = "PyStr ''d''"
        and vr = "SizeFloat (1 / 5)" and sh = True and rs = None and tr = "[]"
        and r = "Test tst" and tr' = tr'] d
    by blast
  have "case load_kitti_semantics_dataset example_env (PyStr ''d'') (SizeFloat (1 / 5)) True (Some 0) [] of
      (Inr (trn, val, tst), tr') \<Rightarrow> shape (X tst) = [2, 3, 1, 1]
    | _ \<Rightarrow> False"
    by code_simp
  then obtain trn val tst2 tr2 where
    s: "load_kitti_semantics_dataset example_env (PyStr ''d'') (SizeFloat (1 / 5)) True (Some 0) []
        = (Inr (trn, val, tst2), tr2)"
    and ss: "shape (X tst2) = [2, 3, 1, 1]"
    by (auto split: prod.splits sum.splits)
  have sz: "Y tst2 = zeros_like (X tst2) \<and> shape (Y tst2) = shape (X tst2)"
    using test_targets_zero [where env = example_env and ld = "PyStr ''d''"
        and vr = "SizeFloat (1 / 5)" and sh = True and rs = "Some 0" and tr = "[]"
        and trn = trn and val = val and tst = tst2 and tr' = tr2] s
    by blast
  have dy: "shape (Y tst) = [2, 3, 1, 1]"
    using conjunct2 [OF dz] ds(1) by simp
  have sy: "shape (Y tst2) = [2, 3, 1, 1]"
    using conjunct2 [OF sz] ss by simp
  from d ds dy dz s ss sy sz show ?thesis
    by blast
qed

section \<open>The depth pipeline\<close>

lemma normalize_channels_id: "normalize_channels [0] [1] chans = chans"
proof -
  have "(\<lambda>(c::nat, ch::tensor). map_ndarray (\<lambda>v. (v - pick [0] c) / pick [1] c) ch) = snd"
    by (auto simp: fun_eq_iff pick_def ndarray.map_ident)
  then show ?thesis
    by (simp add: normalize_channels_def)
qed

lemma map_at_id: "(\<And>ts. f ts = ts) \<Longrightarrow> map_at n f t = t"
proof (induction n f t rule: map_at.induct)
  case (2 n f ts)
  then show ?case by (simp add: map_idI)
qed simp_all

text \<open>
  C9. Normalization with mean 0 and std 1 is the identity on every tensor with at least three
  dimensions, which is what tensor conversion produces: no exception is raised and the tensor
  is returned unchanged. So the depth pipeline returns the resized and converted image.
\<close>

theorem normalize_0_1_identity:
  "(3 \<le> length (shape t) \<longrightarrow> normalize [0] [1] t = Inr t) \<and>
   (3 \<le> length (shape (ToTensor env (Resize env (352, 1216) img))) \<longrightarrow>
      preprocess_d env img = Inr (ToTensor env (Resize env (352, 1216) img)))"
  by (simp add: preprocess_d_def normalize_def Let_def map_at_id normalize_channels_id)

theorem normalize_0_1_identity_witness:
  "length (shape (Arr [Arr [Arr [Elem 7, Elem (1 / 2 :: rat)]]])) = 3 \<and>
   normalize [0] [1] (Arr [Arr [Arr [Elem 7, Elem (1 / 2)]]]) = Inr (Arr [Arr [Arr [Elem 7, Elem (1 / 2)]]]) \<and>
   ToTensor example_env (Resize example_env (352, 1216) (Arr [Arr [Elem 0, Elem 5]]))
     = Arr [Arr [Arr [Elem 0, Elem 5]]] \<and>
   preprocess_d example_env (Arr [Arr [Elem 0, Elem 5]]) = Inr (Arr [Arr [Arr [Elem 0, Elem 5]]])"
proof -
  have l: "length (shape (Arr [Arr [Arr [Elem 7, Elem (1 / 2 :: rat)]]])) = 3"
    by simp
  have t: "ToTensor example_env (Resize example_env (352, 1216) (Arr [Arr [Elem 0, Elem 5]]))
     = Arr [Arr [Arr [Elem 0, Elem 5]]]"
    by (simp add: example_env_def example_to_tensor_def)
  have l2: "3 \<le> length (shape (ToTensor example_env
      (Resize example_env (352, 1216) (Arr [Arr [Elem 0, Elem 5]]))))"
    unfolding t by simp
  have "normalize [0] [1] (Arr [Arr [Arr [Elem 7, Elem (1 / 2)]]])
      = Inr (Arr [Arr [Arr [Elem 7, Elem (1 / 2)]]])"
    using normalize_0_1_identity [where t = "Arr [Arr [Arr [Elem 7, Elem (1 / 2)]]]"] l by simp
  moreover have "preprocess_d example_env (Arr [Arr [Elem 0, Elem 5]])
      = Inr (Arr [Arr [Arr [Elem 0, Elem 5]]])"
    using normalize_0_1_identity [where env = example_env and img = "Arr [Arr [Elem 0, Elem 5]]"]
      l2 t by simp
  ultimately show ?thesis
    using l t by simp
qed

section \<open>Exceptions of the parts\<close>

lemma io_bind_Inl:
  "io_bind m f tr = (Inl e, tr') \<longleftrightarrow>
     m tr = (Inl e, tr') \<or> (\<exists>u tr1. m tr = (Inr u, tr1) \<and> f u tr1 = (Inl e, tr'))"
  by (auto simp: io_bind_def split: prod.splits sum.splits)

lemma lift_Inl: "lift r tr = (Inl e, tr') \<longleftrightarrow> r = Inl e \<and> tr' = tr"
  by (auto simp: lift_def)

lemma io_return_Inl: "io_return u tr \<noteq> (Inl e, tr')"
  by (simp add: io_return_def)

lemma glob_io_Inl: "glob_io env d pat tr \<noteq> (Inl e, tr')"
  by (simp add: glob_io_def)

lemma load_image_Inl: "load_image env f tr = (Inl e, tr') \<Longrightarrow> \<not> is_TypeError e"
  by (auto simp: load_image_def split: option.splits)

lemma for_each_Inl:
  "for_each body as s tr = (Inl e, tr') \<Longrightarrow> \<exists>s1 a tr1. body s1 a tr1 = (Inl e, tr')"
proof (induction as arbitrary: s tr)
  case Nil
  then show ?case by simp
next
  case (Cons a as)
  then show ?case
    by (auto split: prod.splits sum.splits)
qed

lemma normalize_Inl: "normalize mean std t = Inl e \<Longrightarrow> \<not> is_TypeError e"
  by (auto simp: normalize_def Let_def split: if_splits)

lemma preprocess_Inl:
  "preprocess_c env img = Inl e \<Longrightarrow> \<not> is_TypeError e"
  "preprocess_d env img = Inl e \<Longrightarrow> \<not> is_TypeError e"
  by (auto simp: preprocess_c_def preprocess_d_def dest: normalize_Inl)

lemma prefix_suffix_Inl: "prefix_suffix name = Inl e \<Longrightarrow> \<not> is_TypeError e"
  by (auto simp: prefix_suffix_def getitem_def Let_def split: if_splits)

lemma stack_Inl: "stack ts = Inl e \<Longrightarrow> \<not> is_TypeError e"
  by (auto simp: stack_def split: list.splits if_splits)

lemma init_Inl:
  "KittiSemanticsDataset_init xs ys = Inl e \<Longrightarrow> \<not> is_TypeError e"
  "KittiDepthDataset_init c s m y = Inl e \<Longrightarrow> \<not> is_TypeError e"
  by (auto simp: KittiSemanticsDataset_init_def KittiDepthDataset_init_def
      split: sum.splits dest: stack_Inl)

lemma collect_Inl: "collect rs = Inl e \<Longrightarrow> Inl e \<in> set rs"
  by (induction rs) (auto split: sum.splits)

lemma index_array_Inl: "index_array train test a = Inl e \<Longrightarrow> \<not> is_TypeError e"
  by (auto simp: index_array_def safe_indexing_def split: sum.splits if_splits)

lemma validate_shuffle_split_Inl: "validate_shuffle_split n ts = Inl e \<Longrightarrow> \<not> is_TypeError e"
  by (auto simp: validate_shuffle_split_def Let_def split: sum.splits if_splits size_arg.splits)

lemma split_indices_Inl:
  "split_indices env n n_train n_test sh rs = Inl e \<Longrightarrow> \<not> is_TypeError e"
  by (auto simp: split_indices_def check_random_state_def Let_def
      split: sum.splits if_splits option.splits)

section \<open>Exceptions of the split\<close>

lemma collect_map_Inl:
  "collect (map f xs) = Inl e \<Longrightarrow> \<exists>x \<in> set xs. f x = Inl e"
  by (induction xs) (auto split: sum.splits)

lemma train_test_split_Inl:
  assumes a: "train_test_split env arrays ts sh rs = Inl e"
  shows "\<not> is_TypeError e"
proof -
  let ?n = "length (hd arrays)"
  let ?rest = "case validate_shuffle_split ?n ts of Inl x \<Rightarrow> Inl x
        | Inr (n_train, n_test) \<Rightarrow>
        case split_indices env ?n n_train n_test sh rs of Inl x \<Rightarrow> Inl x
        | Inr (train, test) \<Rightarrow> collect (map (index_array train test) arrays)"
  have u: "train_test_split env arrays ts sh rs =
     (if arrays = [] then Inl (ValueError ''At least one array required as input'')
      else if \<not> list_all (\<lambda>a. length a = length (hd arrays)) arrays
      then Inl (ValueError ''Found input variables with inconsistent numbers of samples'')
      else ?rest)"
    unfolding train_test_split_def Let_def by (rule refl)
  consider (empty) "arrays = []"
    | (ragged) "arrays \<noteq> []" "\<not> list_all (\<lambda>a. length a = length (hd arrays)) arrays"
    | (ok) "arrays \<noteq> []" "list_all (\<lambda>a. length a = length (hd arrays)) arrays"
    by blast
  then show ?thesis
  proof cases
    case empty
    have "e = ValueError ''At least one array required as input''"
      using a unfolding u by (simp only: empty if_True simp_thms sum.inject)
    then show ?thesis by simp
  next
    case ragged
    have "e = ValueError ''Found input variables with inconsistent numbers of samples''"
      using a unfolding u by (simp only: ragged if_True if_False simp_thms sum.inject)
    then show ?thesis by simp
  next
    case ok
    have r: "?rest = Inl e"
      using a unfolding u by (simp only: ok if_True if_False simp_thms)
    show ?thesis
    proof (cases "validate_shuffle_split ?n ts")
      case (Inl e')
      have "e = e'"
        using r unfolding Inl by (simp only: sum.case sum.inject)
      then show ?thesis
        using Inl validate_shuffle_split_Inl by blast
    next
      case (Inr p)
      obtain n_train n_test where p: "p = (n_train, n_test)"
        by (cases p)
      have r2: "(case split_indices env ?n n_train n_test sh rs of Inl x \<Rightarrow> Inl x
        | Inr (train, test) \<Rightarrow> collect (map (index_array train test) arrays)) = Inl e"
        using r unfolding Inr p by (simp only: sum.case prod.case)
      show ?thesis
      proof (cases "split_indices env ?n n_train n_test sh rs")
        case (Inl e')
        have "e = e'"
          using r2 unfolding Inl by (simp only: sum.case sum.inject)
        then show ?thesis
          using Inl split_indices_Inl by blast
      next
        case q: (Inr q)
        obtain train test where tt: "q = (train, test)"
          by (cases q)
        have "collect (map (index_array train test) arrays) = Inl e"
          using r2 unfolding q tt by (simp only: sum.case prod.case)
        then have "\<exists>x \<in> set arrays. index_array train test x = Inl e"
          by (rule collect_map_Inl)
        then obtain x where "x \<in> set arrays" and "index_array train test x = Inl e"
          by blast
        then show ?thesis
          using index_array_Inl by blast
      qed
    qed
  qed
qed

section \<open>Computations without a type error\<close>

lemma no_TypeError_bind:
  "no_TypeError m \<Longrightarrow> (\<And>u. no_TypeError (f u)) \<Longrightarrow> no_TypeError (io_bind m f)"
  unfolding no_TypeError_def io_bind_Inl by blast

lemma no_TypeError_lift:
  "(\<And>e. r = Inl e \<Longrightarrow> \<not> is_TypeError e) \<Longrightarrow> no_TypeError (lift r)"
  unfolding no_TypeError_def lift_Inl by blast

lemma no_TypeError_return: "no_TypeError (io_return v)"
  unfolding no_TypeError_def by (simp add: io_return_Inl)

lemma no_TypeError_glob_io: "no_TypeError (glob_io env d pat)"
  unfolding no_TypeError_def by (simp add: glob_io_Inl)

lemma no_TypeError_load_image: "no_TypeError (load_image env f)"
  unfolding no_TypeError_def using load_image_Inl by blast

lemma no_TypeError_for_each:
  assumes "\<And>s a. no_TypeError (body s a)"
  shows "no_TypeError (for_each body as s)"
  unfolding no_TypeError_def
proof (intro allI impI)
  fix tr e tr'
  assume fe: "for_each body as s tr = (Inl e, tr')"
  obtain s1 a tr1 where "body s1 a tr1 = (Inl e, tr')"
    using for_each_Inl [OF fe] by blast
  then show "\<not> is_TypeError e"
    using assms unfolding no_TypeError_def by blast
qed

lemmas no_TypeError_steps =
  no_TypeError_bind no_TypeError_return no_TypeError_glob_io no_TypeError_load_image
  no_TypeError_for_each

section \<open>The type check of the loaders\<close>

lemma no_TypeError_preprocess:
  "no_TypeError (lift (preprocess_c env img))"
  "no_TypeError (lift (preprocess_d env img))"
  by (auto intro!: no_TypeError_lift dest: preprocess_Inl)

lemma no_TypeError_semantics_train_step: "no_TypeError (semantics_train_step env d acc f)"
  unfolding semantics_train_step_def
  by (intro no_TypeError_steps no_TypeError_preprocess)

lemma no_TypeError_semantics_test_step: "no_TypeError (semantics_test_step env acc f)"
  unfolding semantics_test_step_def
  by (intro no_TypeError_steps no_TypeError_preprocess)

lemma no_TypeError_depth_train_step: "no_TypeError (depth_train_step env d acc f)"
proof -
  obtain c s m y where acc: "acc = (c, s, m, y)"
    by (cases acc)
  have ps: "no_TypeError (lift (prefix_suffix n))" for n
    by (auto intro!: no_TypeError_lift dest: prefix_suffix_Inl)
  show ?thesis
    unfolding depth_train_step_def acc prod.case Let_def
    by (intro no_TypeError_steps no_TypeError_preprocess ps)
qed

lemma no_TypeError_depth_test_step: "no_TypeError (depth_test_step env d acc f)"
proof -
  obtain c s m y where acc: "acc = (c, s, m, y)"
    by (cases acc)
  show ?thesis
    unfolding depth_test_step_def acc prod.case Let_def
    by (intro no_TypeError_steps no_TypeError_preprocess)
qed

lemma no_TypeError_init:
  "no_TypeError (lift (KittiSemanticsDataset_init xs ys))"
  "no_TypeError (lift (KittiDepthDataset_init c s m y))"
  by (auto intro!: no_TypeError_lift dest: init_Inl)

lemma no_TypeError_train_test_split:
  "no_TypeError (lift (train_test_split env arrays ts sh rs))"
  by (auto intro!: no_TypeError_lift dest: train_test_split_Inl)

lemma no_TypeError_unpack_error: "no_TypeError (lift (Inl (ValueError m)))"
  by (auto intro!: no_TypeError_lift)

lemma no_TypeError_semantics_loader:
  assumes "as_path ld = Inr d"
  shows "no_TypeError (load_kitti_semantics_dataset env ld vr sh rs)"
proof -
  have fin: "no_TypeError (case parts of
       [(x_train, x_val), (y_train, y_val)] \<Rightarrow>
         io_bind (glob_io env d' ''testing/image_2/*.png'') (\<lambda>files.
         io_bind (for_each (semantics_test_step env) files ([], [])) (\<lambda>xy_test.
         io_bind (lift (KittiSemanticsDataset_init x_train y_train)) (\<lambda>train_dataset.
         io_bind (lift (KittiSemanticsDataset_init x_val y_val)) (\<lambda>val_dataset.
         io_bind (lift (KittiSemanticsDataset_init (fst xy_test) (snd xy_test))) (\<lambda>test_dataset.
         io_return (train_dataset, val_dataset, test_dataset))))))
     | _ \<Rightarrow> lift (Inl (ValueError ''not enough values to unpack'')))" for parts :: "(tensor list \<times> tensor list) list" and d'
    by (auto split: list.splits prod.splits
        intro!: no_TypeError_steps no_TypeError_init no_TypeError_unpack_error
          no_TypeError_semantics_test_step)
  have l: "no_TypeError (lift (Inr d :: error + string))"
    by (auto intro!: no_TypeError_lift)
  show ?thesis
    unfolding load_kitti_semantics_dataset_def assms
    by (intro no_TypeError_steps no_TypeError_train_test_split fin l
        no_TypeError_semantics_train_step)
qed

lemma no_TypeError_depth_loader:
  assumes "as_path ld = Inr d"
  shows "no_TypeError (load_kitti_depth_dataset env ld vr sh rs train)"
proof -
  have fin: "no_TypeError (case parts of
         [(x_color_train, x_color_val), (x_sensor_train, x_sensor_val),
          (x_mask_train, x_mask_val), (y_train, y_val)] \<Rightarrow>
           io_bind (lift (KittiDepthDataset_init x_color_train x_sensor_train x_mask_train y_train))
             (\<lambda>train_dataset.
           io_bind (lift (KittiDepthDataset_init x_color_val x_sensor_val x_mask_val y_val))
             (\<lambda>val_dataset.
           io_return (TrainVal train_dataset val_dataset)))
       | _ \<Rightarrow> lift (Inl (ValueError ''not enough values to unpack'')))"
    for parts :: "(tensor list \<times> tensor list) list"
    by (auto split: list.splits prod.splits
        intro!: no_TypeError_steps no_TypeError_init no_TypeError_unpack_error)
  have l: "no_TypeError (lift (Inr d :: error + string))"
    by (auto intro!: no_TypeError_lift)
  have tr: "no_TypeError (case acc of (x_color, x_sensor, x_mask, ys) \<Rightarrow>
       io_bind (lift (train_test_split env [x_color, x_sensor, x_mask, ys] vr sh rs)) (\<lambda>parts.
       case parts of
         [(x_color_train, x_color_val), (x_sensor_train, x_sensor_val),
          (x_mask_train, x_mask_val), (y_train, y_val)] \<Rightarrow>
           io_bind (lift (KittiDepthDataset_init x_color_train x_sensor_train x_mask_train y_train))
             (\<lambda>train_dataset.
           io_bind (lift (KittiDepthDataset_init x_color_val x_sensor_val x_mask_val y_val))
             (\<lambda>val_dataset.
           io_return (TrainVal train_dataset val_dataset)))
       | _ \<Rightarrow> lift (Inl (ValueError ''not enough values to unpack''))))"
    for acc :: depth_lists
    by (cases acc)
       (auto simp del: no_TypeError_def intro!: no_TypeError_bind no_TypeError_train_test_split fin)
  have te: "no_TypeError (case acc of (x_color_test, x_sensor_test, x_mask_test, y_test) \<Rightarrow>
       io_bind (lift (KittiDepthDataset_init x_color_test x_sensor_test x_mask_test y_test))
         (\<lambda>test_dataset.
       io_return (Test test_dataset)))"
    for acc :: depth_lists
    by (cases acc) (auto intro!: no_TypeError_steps no_TypeError_init)
  have ite: "no_TypeError a \<Longrightarrow> no_TypeError b \<Longrightarrow> no_TypeError (if train then a else b)"
    for a b :: "depth_result io"
    by simp
  show ?thesis
    unfolding load_kitti_depth_dataset_def assms
    by (intro no_TypeError_steps l ite tr te no_TypeError_depth_train_step
        no_TypeError_depth_test_step)
qed

lemma as_path_cases:
  "(\<exists>p. ld = PyPath p \<or> ld = PyStr p) \<Longrightarrow> \<exists>d. as_path ld = Inr d"
  "(\<forall>p. ld \<noteq> PyPath p \<and> ld \<noteq> PyStr p) \<Longrightarrow>
     as_path ld = Inl (TypeError ''load_dir must be Path or str'')"
  by (cases ld; auto simp: as_path_def)+

section \<open>Depth-train file names: properties\<close>

lemma load_image_Inr:
  "load_image env p tr = (Inr im, tr') \<longleftrightarrow> image_open env p = Some im \<and> tr' = tr @ [Open p]"
  by (auto simp: load_image_def split: option.splits)

lemma depth_train_step_opens:
  assumes "depth_train_step env d acc f tr = (Inr acc', tr')"
  shows "\<exists>pre suf. prefix_suffix (path_name f) = Inr (pre, suf) \<and>
           tr' = tr @ [Open f, Open (joinpath d (velodyne_raw_path (pre, suf))),
                       Open (joinpath d (groundtruth_depth_path (pre, suf)))]"
proof -
  obtain c s m y where acc: "acc = (c, s, m, y)"
    by (cases acc)
  show ?thesis
    using assms unfolding depth_train_step_def acc prod.case Let_def
    by (auto simp: io_bind_Inr lift_Inr io_return_Inr load_image_Inr)
qed

text \<open>
  C1 (as stated). The claim's file name \<^verbatim>\<open>2011_09_26_drive_0002_image_0000000005.png\<close>
  holds the token \<^verbatim>\<open>_image_\<close> once, so \<open>split\<close> returns two pieces and the source's
  \<^verbatim>\<open>filename[2]\<close> raises \<open>IndexError\<close>: no prefix and suffix are produced.
\<close>

theorem prefix_suffix_spec_name_fails:
  "prefix_suffix ''2011_09_26_drive_0002_image_0000000005.png'' = Inl IndexError"
  by (simp add: prefix_suffix_def split_def getitem_def)

text \<open>
  C1 (amended). The file name is split on \<^verbatim>\<open>_image_\<close>. With fewer than three pieces
  the loader raises \<open>IndexError\<close>. With three or more pieces it succeeds: the prefix is the
  first piece and the suffix is the second piece, \<^verbatim>\<open>_image_\<close>, and the third piece. When
  there are exactly three pieces the name is prefix, \<^verbatim>\<open>_image_\<close>, suffix. An iteration of
  the depth-train loop that completes has opened, in this order, the color file, the
  sparse-depth file \<^verbatim>\<open>val_selection_cropped/velodyne_raw/<prefix>_velodyne_raw_<suffix>\<close>
  and the ground-truth file
  \<^verbatim>\<open>val_selection_cropped/groundtruth_depth/<prefix>_groundtruth_depth_<suffix>\<close> under the
  load directory, and nothing else.
\<close>

theorem prefix_suffix_three_pieces:
  "(length (split ''_image_'' name) < 3 \<longrightarrow> prefix_suffix name = Inl IndexError) \<and>
   (3 \<le> length (split ''_image_'' name) \<longrightarrow>
      prefix_suffix name =
        Inr (split ''_image_'' name ! 0,
             split ''_image_'' name ! 1 @ ''_image_'' @ split ''_image_'' name ! 2)) \<and>
   (prefix_suffix name = Inr (pre, suf) \<longrightarrow>
      3 \<le> length (split ''_image_'' name) \<and>
      pre = split ''_image_'' name ! 0 \<and>
      suf = split ''_image_'' name ! 1 @ ''_image_'' @ split ''_image_'' name ! 2 \<and>
      (length (split ''_image_'' name) = 3 \<longrightarrow> name = pre @ ''_image_'' @ suf) \<and>
      velodyne_raw_path (pre, suf) =
        ''val_selection_cropped/velodyne_raw/'' @ pre @ ''_velodyne_raw_'' @ suf \<and>
      groundtruth_depth_path (pre, suf) =
        ''val_selection_cropped/groundtruth_depth/'' @ pre @ ''_groundtruth_depth_'' @ suf) \<and>
   (depth_train_step env d acc f tr = (Inr acc', tr') \<longrightarrow>
      (\<exists>p q. prefix_suffix (path_name f) = Inr (p, q) \<and>
         tr' = tr @ [Open f,
           Open (d @ ''/val_selection_cropped/velodyne_raw/'' @ p @ ''_velodyne_raw_'' @ q),
           Open (d @ ''/val_selection_cropped/groundtruth_depth/'' @ p
                   @ ''_groundtruth_depth_'' @ q)]))"
proof -
  have a: "length (split ''_image_'' name) < 3 \<Longrightarrow> prefix_suffix name = Inl IndexError"
    by (auto simp: prefix_suffix_def getitem_def Let_def)
  have a': "prefix_suffix name =
        Inr (split ''_image_'' name ! 0,
             split ''_image_'' name ! 1 @ ''_image_'' @ split ''_image_'' name ! 2)"
    if "3 \<le> length (split ''_image_'' name)"
    using that by (auto simp: prefix_suffix_def getitem_def Let_def)
  have b: "3 \<le> length (split ''_image_'' name) \<and> pre = split ''_image_'' name ! 0 \<and>
      suf = split ''_image_'' name ! 1 @ ''_image_'' @ split ''_image_'' name ! 2"
    if "prefix_suffix name = Inr (pre, suf)"
    using that by (auto simp: prefix_suffix_def getitem_def Let_def split: if_splits)
  have c: "name = pre @ ''_image_'' @ suf"
    if h: "prefix_suffix name = Inr (pre, suf)" and l: "length (split ''_image_'' name) = 3"
  proof -
    obtain f0 f1 f2 where s: "split ''_image_'' name = [f0, f1, f2]"
      using l by (auto simp: numeral_3_eq_3 length_Suc_conv)
    have "join ''_image_'' (split ''_image_'' name) = name"
      by (rule join_split)
    then have "name = f0 @ ''_image_'' @ f1 @ ''_image_'' @ f2"
      by (simp add: s)
    moreover have "pre = f0" "suf = f1 @ ''_image_'' @ f2"
      using b[OF h] by (simp_all add: s)
    ultimately show ?thesis by simp
  qed
  have e: "\<exists>p q. prefix_suffix (path_name f) = Inr (p, q) \<and>
         tr' = tr @ [Open f,
           Open (d @ ''/val_selection_cropped/velodyne_raw/'' @ p @ ''_velodyne_raw_'' @ q),
           Open (d @ ''/val_selection_cropped/groundtruth_depth/'' @ p
                   @ ''_groundtruth_depth_'' @ q)]"
    if st: "depth_train_step env d acc f tr = (Inr acc', tr')"
  proof -
    obtain p q where pq: "prefix_suffix (path_name f) = Inr (p, q)"
      and t: "tr' = tr @ [Open f, Open (joinpath d (velodyne_raw_path (p, q))),
                       Open (joinpath d (groundtruth_depth_path (p, q)))]"
      using depth_train_step_opens[OF st] by blast
    have "joinpath d (velodyne_raw_path (p, q))
        = d @ ''/val_selection_cropped/velodyne_raw/'' @ p @ ''_velodyne_raw_'' @ q"
      by (simp add: joinpath_def velodyne_raw_path_def)
    moreover have "joinpath d (groundtruth_depth_path (p, q))
        = d @ ''/val_selection_cropped/groundtruth_depth/'' @ p @ ''_groundtruth_depth_'' @ q"
      by (simp add: joinpath_def groundtruth_depth_path_def)
    ultimately show ?thesis
      using pq t by (intro exI[of _ p] exI[of _ q]) (simp only: simp_thms)
  qed
  have p1: "velodyne_raw_path (pre, suf) =
        ''val_selection_cropped/velodyne_raw/'' @ pre @ ''_velodyne_raw_'' @ suf"
    by (simp add: velodyne_raw_path_def)
  have p2: "groundtruth_depth_path (pre, suf) =
        ''val_selection_cropped/groundtruth_depth/'' @ pre @ ''_groundtruth_depth_'' @ suf"
    by (simp add: groundtruth_depth_path_def)
  show ?thesis
    using a a' b c e p1 p2 by blast
qed

theorem prefix_suffix_three_pieces_witness:
  "length (split ''_image_'' ''drive_0002_image_05.png'') < 3 \<and>
   prefix_suffix ''drive_0002_image_05.png'' = Inl IndexError \<and>
   length (split ''_image_'' ''2011_09_26_drive_0002_sync_image_0000000005_image_02.png'') = 3 \<and>
   prefix_suffix ''2011_09_26_drive_0002_sync_image_0000000005_image_02.png''
     = Inr (''2011_09_26_drive_0002_sync'', ''0000000005_image_02.png'') \<and>
   ''2011_09_26_drive_0002_sync_image_0000000005_image_02.png''
     = ''2011_09_26_drive_0002_sync'' @ ''_image_'' @ ''0000000005_image_02.png'' \<and>
   velodyne_raw_path (''2011_09_26_drive_0002_sync'', ''0000000005_image_02.png'')
     = ''val_selection_cropped/velodyne_raw/2011_09_26_drive_0002_sync_velodyne_raw_0000000005_image_02.png'' \<and>
   groundtruth_depth_path (''2011_09_26_drive_0002_sync'', ''0000000005_image_02.png'')
     = ''val_selection_cropped/groundtruth_depth/2011_09_26_drive_0002_sync_groundtruth_depth_0000000005_image_02.png'' \<and>
   (\<exists>acc'. depth_train_step example_env ''d'' ([], [], [], [])
        ''d/val_selection_cropped/image/a_image_0_image_2.png'' []
      = (Inr acc',
         [Open ''d/val_selection_cropped/image/a_image_0_image_2.png'',
          Open ''d/val_selection_cropped/velodyne_raw/a_velodyne_raw_0_image_2.png'',
          Open ''d/val_selection_cropped/groundtruth_depth/a_groundtruth_depth_0_image_2.png'']))"
proof -
  let ?short = "''drive_0002_image_05.png''"
  let ?kitti = "''2011_09_26_drive_0002_sync_image_0000000005_image_02.png''"
  let ?f = "''d/val_selection_cropped/image/a_image_0_image_2.png''"
  have l2: "length (split ''_image_'' ?short) < 3"
    by (simp add: split_def)
  have l3: "length (split ''_image_'' ?kitti) = 3"
    by (simp add: split_def)
  have s3: "split ''_image_'' ?kitti ! 0 = ''2011_09_26_drive_0002_sync''"
    "split ''_image_'' ?kitti ! 1 @ ''_image_'' @ split ''_image_'' ?kitti ! 2
       = ''0000000005_image_02.png''"
    by (simp_all add: split_def)
  have t1: "prefix_suffix ?short = Inl IndexError"
    using prefix_suffix_three_pieces [where name = ?short] l2 by blast
  have l3': "3 \<le> length (split ''_image_'' ?kitti)"
    using l3 by simp
  have t2': "prefix_suffix ?kitti
      = Inr (split ''_image_'' ?kitti ! 0,
             split ''_image_'' ?kitti ! 1 @ ''_image_'' @ split ''_image_'' ?kitti ! 2)"
    using prefix_suffix_three_pieces [where name = ?kitti] l3' by blast
  have t2: "prefix_suffix ?kitti
      = Inr (''2011_09_26_drive_0002_sync'', ''0000000005_image_02.png'')"
    using t2' by (simp only: s3)
  have t3: "?kitti = ''2011_09_26_drive_0002_sync'' @ ''_image_'' @ ''0000000005_image_02.png'' \<and>
     velodyne_raw_path (''2011_09_26_drive_0002_sync'', ''0000000005_image_02.png'')
       = ''val_selection_cropped/velodyne_raw/'' @ ''2011_09_26_drive_0002_sync''
           @ ''_velodyne_raw_'' @ ''0000000005_image_02.png'' \<and>
     groundtruth_depth_path (''2011_09_26_drive_0002_sync'', ''0000000005_image_02.png'')
       = ''val_selection_cropped/groundtruth_depth/'' @ ''2011_09_26_drive_0002_sync''
           @ ''_groundtruth_depth_'' @ ''0000000005_image_02.png''"
    using prefix_suffix_three_pieces [where name = ?kitti
        and pre = "''2011_09_26_drive_0002_sync''" and suf = "''0000000005_image_02.png''"] t2 l3
    by blast
  have t4: "velodyne_raw_path (''2011_09_26_drive_0002_sync'', ''0000000005_image_02.png'')
     = ''val_selection_cropped/velodyne_raw/2011_09_26_drive_0002_sync_velodyne_raw_0000000005_image_02.png''"
    using t3 by simp
  have t5: "groundtruth_depth_path (''2011_09_26_drive_0002_sync'', ''0000000005_image_02.png'')
     = ''val_selection_cropped/groundtruth_depth/2011_09_26_drive_0002_sync_groundtruth_depth_0000000005_image_02.png''"
    using t3 by simp
  have "case depth_train_step example_env ''d'' ([], [], [], []) ?f [] of
      (Inr acc', tr') \<Rightarrow> True | _ \<Rightarrow> False"
    by code_simp
  then obtain acc' tr' where
    st: "depth_train_step example_env ''d'' ([], [], [], []) ?f [] = (Inr acc', tr')"
    by (auto split: prod.splits sum.splits)
  have ps: "prefix_suffix (path_name ?f) = Inr (''a'', ''0_image_2.png'')"
    by (simp add: path_name_def prefix_suffix_def split_def getitem_def)
  obtain p q where pq: "prefix_suffix (path_name ?f) = Inr (p, q)"
    and tr: "tr' = [] @ [Open ?f,
           Open (''d'' @ ''/val_selection_cropped/velodyne_raw/'' @ p @ ''_velodyne_raw_'' @ q),
           Open (''d'' @ ''/val_selection_cropped/groundtruth_depth/'' @ p
                   @ ''_groundtruth_depth_'' @ q)]"
    using prefix_suffix_three_pieces [where env = example_env and d = "''d''"
        and acc = "([], [], [], [])" and f = ?f and tr = "[]" and acc' = acc' and tr' = tr'] st
    by blast
  have "p = ''a''" "q = ''0_image_2.png''"
    using pq ps by simp_all
  then have t6: "tr' = [Open ?f,
          Open ''d/val_selection_cropped/velodyne_raw/a_velodyne_raw_0_image_2.png'',
          Open ''d/val_selection_cropped/groundtruth_depth/a_groundtruth_depth_0_image_2.png'']"
    using tr by simp
  have t7: "\<exists>acc'. depth_train_step example_env ''d'' ([], [], [], []) ?f []
      = (Inr acc',
         [Open ?f,
          Open ''d/val_selection_cropped/velodyne_raw/a_velodyne_raw_0_image_2.png'',
          Open ''d/val_selection_cropped/groundtruth_depth/a_groundtruth_depth_0_image_2.png''])"
    using st t6 by blast
  from l2 t1 l3 t2 conjunct1 [OF t3] t4 t5 t7 show ?thesis
    by (intro conjI)
qed

section \<open>Dataset lengths\<close>

lemma train_test_split_parts:
  assumes "train_test_split env arrays ts sh rs = Inr parts"
  shows "\<exists>train test.
           parts = map (\<lambda>a. (map (\<lambda>i. a ! i) train, map (\<lambda>i. a ! i) test)) arrays"
proof -
  from assms obtain train test where
    c: "collect (map (index_array train test) arrays) = Inr parts"
    by (auto simp: train_test_split_def Let_def split: if_splits sum.splits prod.splits)
  have pr: "parts = map (\<lambda>a. projr (index_array train test a)) arrays"
    and ok: "\<forall>a \<in> set arrays. \<not> isl (index_array train test a)"
    using collect_map_Inr[OF c] by auto
  have "projr (index_array train test a) = (map (\<lambda>i. a ! i) train, map (\<lambda>i. a ! i) test)"
    if mem: "a \<in> set arrays" for a
  proof -
    obtain v where v: "index_array train test a = Inr v"
      using ok mem by (cases "index_array train test a") auto
    show ?thesis using index_array_Inr[OF v] v by simp
  qed
  then have "parts = map (\<lambda>a. (map (\<lambda>i. a ! i) train, map (\<lambda>i. a ! i) test)) arrays"
    unfolding pr by (intro map_cong) auto
  then show ?thesis by blast
qed

lemma depth_test_step_lengths:
  assumes "depth_test_step env d acc f tr = (Inr acc', tr')"
    and "case acc of (c, s, m, y) \<Rightarrow> length c = k \<and> length s = k \<and> length m = k \<and> length y = k"
  shows "case acc' of (c, s, m, y) \<Rightarrow>
           length c = Suc k \<and> length s = Suc k \<and> length m = Suc k \<and> length y = Suc k"
  using assms
  by (auto simp: depth_test_step_def io_bind_Inr lift_Inr io_return_Inr Let_def
      split: prod.splits)

lemma equal_lengths_init:
  assumes "KittiDepthDataset_init c s m y = Inr d"
    and "length s = length c" "length m = length c" "length y = length c"
  shows "equal_lengths d"
  using KittiDepthDataset_init_Inr[OF assms(1)] assms(2-)
  by (simp add: equal_lengths_def dataset_len_def)

lemma depth_loader_equal_lengths:
  assumes "load_kitti_depth_dataset env ld vr sh rs train tr = (Inr r, tr')"
  shows "(\<forall>trn val. r = TrainVal trn val \<longrightarrow> equal_lengths trn \<and> equal_lengths val) \<and>
         (\<forall>tst. r = Test tst \<longrightarrow> equal_lengths tst)"
proof (cases train)
  case True
  have a: "load_kitti_depth_dataset env ld vr sh rs True tr = (Inr r, tr')"
    using assms True by simp
  from a obtain d c s m y c_train c_val s_train s_val m_train m_val
      y_train y_val trn val where
    fe: "for_each (depth_train_step env d) (glob env d ''val_selection_cropped/image/*.png'')
        ([], [], [], []) (tr @ [Glob d ''val_selection_cropped/image/*.png''])
        = (Inr (c, s, m, y), tr')"
    and sp: "train_test_split env [c, s, m, y] vr sh rs
        = Inr [(c_train, c_val), (s_train, s_val), (m_train, m_val), (y_train, y_val)]"
    and i1: "KittiDepthDataset_init c_train s_train m_train y_train = Inr trn"
    and i2: "KittiDepthDataset_init c_val s_val m_val y_val = Inr val"
    and r: "r = TrainVal trn val"
    by (rule load_kitti_depth_dataset_train_Inr)
  have "\<exists>n k. length c_train = n \<and> length s_train = n \<and> length m_train = n \<and>
      length y_train = n \<and> length c_val = k \<and> length s_val = k \<and> length m_val = k \<and>
      length y_val = k"
    using train_test_split_parts[OF sp] by (elim exE) simp
  then have l: "length s_train = length c_train" "length m_train = length c_train"
    "length y_train = length c_train" "length s_val = length c_val"
    "length m_val = length c_val" "length y_val = length c_val"
    by auto
  have "equal_lengths trn" "equal_lengths val"
    using equal_lengths_init[OF i1] equal_lengths_init[OF i2] l by simp_all
  then show ?thesis using r by simp
next
  case False
  have a: "load_kitti_depth_dataset env ld vr sh rs False tr = (Inr r, tr')"
    using assms False by simp
  from a obtain d c s m y tst where
    fe: "for_each (depth_test_step env d) (glob env d ''test_depth_completion_anonymous/image/*.png'')
        ([], [], [], []) (tr @ [Glob d ''test_depth_completion_anonymous/image/*.png''])
        = (Inr (c, s, m, y), tr')"
    and i: "KittiDepthDataset_init c s m y = Inr tst"
    and r: "r = Test tst"
    by (rule load_kitti_depth_dataset_test_Inr)
  let ?n = "length (glob env d ''test_depth_completion_anonymous/image/*.png'')"
  have "case (c, s, m, y) of (c, s, m, y) \<Rightarrow>
          length c = 0 + ?n \<and> length s = 0 + ?n \<and> length m = 0 + ?n \<and> length y = 0 + ?n"
    by (rule for_each_count[OF fe, where Q = "\<lambda>acc k. case acc of (c, s, m, y) \<Rightarrow>
          length c = k \<and> length s = k \<and> length m = k \<and> length y = k"])
       (auto dest: depth_test_step_lengths)
  then have "equal_lengths tst"
    using equal_lengths_init[OF i] by simp
  then show ?thesis using r by simp
qed

lemma stack_uniform:
  "ts \<noteq> [] \<Longrightarrow> list_all (\<lambda>u. shape u = shape (hd ts)) ts \<Longrightarrow> stack ts = Inr (Arr ts)"
  by (cases ts) (auto simp: stack_def)

text \<open>
  C7 (as stated). Construction from parallel lists of differing lengths is not rejected: from
  two color tensors, one sensor tensor, two masks and two targets the constructor returns a
  container that reports length 2 while its sensor field has length 1, and whose element 1
  cannot be read.
\<close>

theorem KittiDepthDataset_init_unequal_lengths:
  "KittiDepthDataset_init [Arr [Elem 1], Arr [Elem 2]] [Arr [Elem 3]]
      [Arr [Elem 1], Arr [Elem 1]] [Arr [Elem 4], Arr [Elem 5]]
     = Inr \<lparr>X = Arr [Arr [Elem 1], Arr [Elem 2]], Y = Arr [Arr [Elem 4], Arr [Elem 5]],
            X_sensor = Arr [Arr [Elem 3]], X_mask = Arr [Arr [Elem 1], Arr [Elem 1]]\<rparr> \<and>
   dataset_len \<lparr>X = Arr [Arr [Elem 1], Arr [Elem 2]], Y = Arr [Arr [Elem 4], Arr [Elem 5]],
            X_sensor = Arr [Arr [Elem 3]], X_mask = Arr [Arr [Elem 1], Arr [Elem 1]]\<rparr> = Inr 2 \<and>
   tensor_len (X_sensor \<lparr>X = Arr [Arr [Elem 1], Arr [Elem 2]], Y = Arr [Arr [Elem 4], Arr [Elem 5]],
            X_sensor = Arr [Arr [Elem 3]], X_mask = Arr [Arr [Elem 1], Arr [Elem 1]]\<rparr>) = Inr 1 \<and>
   depth_getitem \<lparr>X = Arr [Arr [Elem 1], Arr [Elem 2]], Y = Arr [Arr [Elem 4], Arr [Elem 5]],
            X_sensor = Arr [Arr [Elem 3]], X_mask = Arr [Arr [Elem 1], Arr [Elem 1]]\<rparr> 1
     = Inl IndexError"
  by (simp add: KittiDepthDataset_init_def KittiSemanticsDataset_init_def stack_def
      dataset_len_def depth_getitem_def)

text \<open>
  C7 (amended). The constructor of \<^verbatim>\<open>KittiDepthDataset\<close> enforces nothing about lengths: it
  stacks each of its four lists on its own and succeeds whenever each list is non-empty and
  of uniform shape, whatever the four lengths are. When it succeeds, each field holds exactly
  the list it was given and the reported length is the length of the color list. The
  invariant holds of the loader: every dataset that \<^verbatim>\<open>load_kitti_depth_dataset\<close> returns,
  with \<^verbatim>\<open>train\<close> true or false, has four fields of the reported length.
\<close>

theorem KittiDepthDataset_init_fields:
  "(KittiDepthDataset_init c s m y = Inr d \<longrightarrow>
     X d = Arr c \<and> X_sensor d = Arr s \<and> X_mask d = Arr m \<and> Y d = Arr y \<and>
     dataset_len d = Inr (length c) \<and>
     tensor_len (X_sensor d) = Inr (length s) \<and>
     tensor_len (X_mask d) = Inr (length m) \<and>
     tensor_len (Y d) = Inr (length y) \<and>
     (length c = length s \<and> length s = length m \<and> length m = length y \<longrightarrow>
        tensor_len (X_sensor d) = dataset_len d \<and>
        tensor_len (X_mask d) = dataset_len d \<and>
        tensor_len (Y d) = dataset_len d)) \<and>
   (c \<noteq> [] \<and> s \<noteq> [] \<and> m \<noteq> [] \<and> y \<noteq> [] \<and>
    list_all (\<lambda>u. shape u = shape (hd c)) c \<and> list_all (\<lambda>u. shape u = shape (hd s)) s \<and>
    list_all (\<lambda>u. shape u = shape (hd m)) m \<and> list_all (\<lambda>u. shape u = shape (hd y)) y \<longrightarrow>
      KittiDepthDataset_init c s m y
        = Inr \<lparr>X = Arr c, Y = Arr y, X_sensor = Arr s, X_mask = Arr m\<rparr>) \<and>
   (load_kitti_depth_dataset env ld vr sh rs train tr = (Inr r, tr') \<longrightarrow>
      (\<forall>trn val. r = TrainVal trn val \<longrightarrow> equal_lengths trn \<and> equal_lengths val) \<and>
      (\<forall>tst. r = Test tst \<longrightarrow> equal_lengths tst))"
proof (intro conjI)
  show "KittiDepthDataset_init c s m y = Inr d \<longrightarrow>
     X d = Arr c \<and> X_sensor d = Arr s \<and> X_mask d = Arr m \<and> Y d = Arr y \<and>
     dataset_len d = Inr (length c) \<and>
     tensor_len (X_sensor d) = Inr (length s) \<and>
     tensor_len (X_mask d) = Inr (length m) \<and>
     tensor_len (Y d) = Inr (length y) \<and>
     (length c = length s \<and> length s = length m \<and> length m = length y \<longrightarrow>
        tensor_len (X_sensor d) = dataset_len d \<and>
        tensor_len (X_mask d) = dataset_len d \<and>
        tensor_len (Y d) = dataset_len d)"
    by (auto simp: KittiDepthDataset_init_def KittiSemanticsDataset_init_def dataset_len_def
        split: sum.splits dest!: stack_Inr)
  show "c \<noteq> [] \<and> s \<noteq> [] \<and> m \<noteq> [] \<and> y \<noteq> [] \<and>
    list_all (\<lambda>u. shape u = shape (hd c)) c \<and> list_all (\<lambda>u. shape u = shape (hd s)) s \<and>
    list_all (\<lambda>u. shape u = shape (hd m)) m \<and> list_all (\<lambda>u. shape u = shape (hd y)) y \<longrightarrow>
      KittiDepthDataset_init c s m y
        = Inr \<lparr>X = Arr c, Y = Arr y, X_sensor = Arr s, X_mask = Arr m\<rparr>"
    by (simp add: KittiDepthDataset_init_def KittiSemanticsDataset_init_def stack_uniform)
  show "load_kitti_depth_dataset env ld vr sh rs train tr = (Inr r, tr') \<longrightarrow>
      (\<forall>trn val. r = TrainVal trn val \<longrightarrow> equal_lengths trn \<and> equal_lengths val) \<and>
      (\<forall>tst. r = Test tst \<longrightarrow> equal_lengths tst)"
    using depth_loader_equal_lengths by blast
qed

theorem KittiDepthDataset_init_fields_witness:
  "KittiDepthDataset_init [Arr [Elem 1], Arr [Elem 2]] [Arr [Elem 3], Arr [Elem 0]]
      [Arr [Elem 1], Arr [Elem 0]] [Arr [Elem 4], Arr [Elem 5]]
     = Inr \<lparr>X = Arr [Arr [Elem 1], Arr [Elem 2]], Y = Arr [Arr [Elem 4], Arr [Elem 5]],
            X_sensor = Arr [Arr [Elem 3], Arr [Elem 0]],
            X_mask = Arr [Arr [Elem 1], Arr [Elem 0]]\<rparr> \<and>
   dataset_len \<lparr>X = Arr [Arr [Elem 1], Arr [Elem 2]], Y = Arr [Arr [Elem 4], Arr [Elem 5]],
            X_sensor = Arr [Arr [Elem 3], Arr [Elem 0]],
            X_mask = Arr [Arr [Elem 1], Arr [Elem 0]]\<rparr> = Inr 2 \<and>
   tensor_len (X_sensor \<lparr>X = Arr [Arr [Elem 1], Arr [Elem 2]], Y = Arr [Arr [Elem 4], Arr [Elem 5]],
            X_sensor = Arr [Arr [Elem 3], Arr [Elem 0]],
            X_mask = Arr [Arr [Elem 1], Arr [Elem 0]]\<rparr>) = Inr 2 \<and>
   KittiDepthDataset_init [Arr [Elem 1], Arr [Elem 2], Arr [Elem 6]] [Arr [Elem 3]]
      [Arr [Elem 1]] [Arr [Elem 4]]
     = Inr \<lparr>X = Arr [Arr [Elem 1], Arr [Elem 2], Arr [Elem 6]], Y = Arr [Arr [Elem 4]],
            X_sensor = Arr [Arr [Elem 3]], X_mask = Arr [Arr [Elem 1]]\<rparr> \<and>
   (\<exists>trn val tr'. load_kitti_depth_dataset example_env (PyStr ''d'') (SizeFloat (1 / 5)) True
        (Some 1) True [] = (Inr (TrainVal trn val), tr') \<and>
      equal_lengths trn \<and> equal_lengths val \<and>
      dataset_len trn = Inr 8 \<and> dataset_len val = Inr 2) \<and>
   (\<exists>tst tr'. load_kitti_depth_dataset example_env (PyStr ''d'') (SizeFloat (1 / 5)) True
        None False [] = (Inr (Test tst), tr') \<and>
      equal_lengths tst \<and> dataset_len tst = Inr 2)"
proof -
  let ?d = "\<lparr>X = Arr [Arr [Elem 1], Arr [Elem 2]], Y = Arr [Arr [Elem 4], Arr [Elem 5]],
            X_sensor = Arr [Arr [Elem 3], Arr [Elem 0]],
            X_mask = Arr [Arr [Elem 1], Arr [Elem 0]]\<rparr>"
  have i: "KittiDepthDataset_init [Arr [Elem 1], Arr [Elem 2]] [Arr [Elem 3], Arr [Elem 0]]
      [Arr [Elem 1], Arr [Elem 0]] [Arr [Elem 4], Arr [Elem 5]] = Inr ?d"
    by (simp add: KittiDepthDataset_init_def KittiSemanticsDataset_init_def stack_def)
  have "dataset_len ?d = Inr (length [Arr [Elem 1], Arr [Elem (2::rat)]]) \<and>
        tensor_len (X_sensor ?d) = Inr (length [Arr [Elem 3], Arr [Elem (0::rat)]])"
    using KittiDepthDataset_init_fields
      [where c = "[Arr [Elem 1], Arr [Elem 2]]" and s = "[Arr [Elem 3], Arr [Elem 0]]"
          and m = "[Arr [Elem 1], Arr [Elem 0]]" and y = "[Arr [Elem 4], Arr [Elem 5]]"
          and d = ?d] i
    by blast
  then have a: "dataset_len ?d = Inr 2 \<and> tensor_len (X_sensor ?d) = Inr 2"
    by simp
  have u: "[Arr [Elem 1], Arr [Elem 2], Arr [Elem (6::rat)]] \<noteq> [] \<and> [Arr [Elem (3::rat)]] \<noteq> [] \<and>
      [Arr [Elem (1::rat)]] \<noteq> [] \<and> [Arr [Elem (4::rat)]] \<noteq> [] \<and>
      list_all (\<lambda>u. shape u = shape (hd [Arr [Elem 1], Arr [Elem 2], Arr [Elem (6::rat)]]))
        [Arr [Elem 1], Arr [Elem 2], Arr [Elem 6]] \<and>
      list_all (\<lambda>u. shape u = shape (hd [Arr [Elem (3::rat)]])) [Arr [Elem 3]] \<and>
      list_all (\<lambda>u. shape u = shape (hd [Arr [Elem (1::rat)]])) [Arr [Elem 1]] \<and>
      list_all (\<lambda>u. shape u = shape (hd [Arr [Elem (4::rat)]])) [Arr [Elem 4]]"
    by simp
  have b: "KittiDepthDataset_init [Arr [Elem 1], Arr [Elem 2], Arr [Elem 6]] [Arr [Elem 3]]
      [Arr [Elem 1]] [Arr [Elem 4]]
     = Inr \<lparr>X = Arr [Arr [Elem 1], Arr [Elem 2], Arr [Elem 6]], Y = Arr [Arr [Elem 4]],
            X_sensor = Arr [Arr [Elem 3]], X_mask = Arr [Arr [Elem 1]]\<rparr>"
    using KittiDepthDataset_init_fields
      [where c = "[Arr [Elem 1], Arr [Elem 2], Arr [Elem 6]]" and s = "[Arr [Elem 3]]"
          and m = "[Arr [Elem 1]]" and y = "[Arr [Elem 4]]"] u
    by blast
  have "case load_kitti_depth_dataset example_env (PyStr ''d'') (SizeFloat (1 / 5)) True
        (Some 1) True [] of
      (Inr (TrainVal trn val), tr') \<Rightarrow> dataset_len trn = Inr 8 \<and> dataset_len val = Inr 2
    | _ \<Rightarrow> False"
    by code_simp
  then obtain trn val tr1 where
    t: "load_kitti_depth_dataset example_env (PyStr ''d'') (SizeFloat (1 / 5)) True
        (Some 1) True [] = (Inr (TrainVal trn val), tr1)"
    and tl: "dataset_len trn = Inr 8" "dataset_len val = Inr 2"
    by (auto split: prod.splits sum.splits depth_result.splits)
  have te: "equal_lengths trn \<and> equal_lengths val"
    using KittiDepthDataset_init_fields
      [where env = example_env and ld = "PyStr ''d''" and vr = "SizeFloat (1 / 5)"
          and sh = True and rs = "Some 1" and train = True and tr = "[]"
          and r = "TrainVal trn val" and tr' = tr1] t
    by blast
  have "case load_kitti_depth_dataset example_env (PyStr ''d'') (SizeFloat (1 / 5)) True
        None False [] of
      (Inr (Test tst), tr') \<Rightarrow> dataset_len tst = Inr 2
    | _ \<Rightarrow> False"
    by code_simp
  then obtain tst tr2 where
    e: "load_kitti_depth_dataset example_env (PyStr ''d'') (SizeFloat (1 / 5)) True
        None False [] = (Inr (Test tst), tr2)"
    and el: "dataset_len tst = Inr 2"
    by (auto split: prod.splits sum.splits depth_result.splits)
  have ee: "equal_lengths tst"
    using KittiDepthDataset_init_fields
      [where env = example_env and ld = "PyStr ''d''" and vr = "SizeFloat (1 / 5)"
          and sh = True and rs = None and train = False and tr = "[]"
          and r = "Test tst" and tr' = tr2] e
    by blast
  have c1: "\<exists>trn val tr'. load_kitti_depth_dataset example_env (PyStr ''d'') (SizeFloat (1 / 5)) True
        (Some 1) True [] = (Inr (TrainVal trn val), tr') \<and>
      equal_lengths trn \<and> equal_lengths val \<and>
      dataset_len trn = Inr 8 \<and> dataset_len val = Inr 2"
    using t tl te by blast
  have c2: "\<exists>tst tr'. load_kitti_depth_dataset example_env (PyStr ''d'') (SizeFloat (1 / 5)) True
        None False [] = (Inr (Test tst), tr') \<and>
      equal_lengths tst \<and> dataset_len tst = Inr 2"
    using e el ee by blast
  from i conjunct1 [OF a] conjunct2 [OF a] b c1 c2 show ?thesis
    by (intro conjI)
qed

section \<open>The type check\<close>

lemma loaders_no_TypeError:
  assumes "\<exists>p. ld = PyPath p \<or> ld = PyStr p"
  shows "fst (load_kitti_semantics_dataset env ld vr sh rs tr) \<noteq> Inl (TypeError m)"
    and "fst (load_kitti_depth_dataset env ld vr sh rs train tr) \<noteq> Inl (TypeError m)"
proof -
  obtain d where d: "as_path ld = Inr d"
    using assms as_path_cases(1) by blast
  have s: "no_TypeError (load_kitti_semantics_dataset env ld vr sh rs)"
    using d by (rule no_TypeError_semantics_loader)
  show "fst (load_kitti_semantics_dataset env ld vr sh rs tr) \<noteq> Inl (TypeError m)"
  proof
    assume "fst (load_kitti_semantics_dataset env ld vr sh rs tr) = Inl (TypeError m)"
    then have "load_kitti_semantics_dataset env ld vr sh rs tr
        = (Inl (TypeError m), snd (load_kitti_semantics_dataset env ld vr sh rs tr))"
      by (metis prod.collapse)
    then have "\<not> is_TypeError (TypeError m)"
      using s unfolding no_TypeError_def by blast
    then show False by simp
  qed
  have t: "no_TypeError (load_kitti_depth_dataset env ld vr sh rs train)"
    using d by (rule no_TypeError_depth_loader)
  show "fst (load_kitti_depth_dataset env ld vr sh rs train tr) \<noteq> Inl (TypeError m)"
  proof
    assume "fst (load_kitti_depth_dataset env ld vr sh rs train tr) = Inl (TypeError m)"
    then have "load_kitti_depth_dataset env ld vr sh rs train tr
        = (Inl (TypeError m), snd (load_kitti_depth_dataset env ld vr sh rs train tr))"
      by (metis prod.collapse)
    then have "\<not> is_TypeError (TypeError m)"
      using t unfolding no_TypeError_def by blast
    then show False by simp
  qed
qed

text \<open>
  C6. For every \<^verbatim>\<open>load_dir\<close> that is neither a \<^verbatim>\<open>Path\<close> nor a \<^verbatim>\<open>str\<close>, both loaders end
  with the \<open>TypeError\<close> of lines 51 and 95 and with the events they started with: nothing was
  listed or opened and no dataset exists. For a \<^verbatim>\<open>Path\<close> or a \<^verbatim>\<open>str\<close> neither loader ends
  with this \<open>TypeError\<close>.
\<close>

theorem load_dir_type_check:
  "((\<forall>p. ld \<noteq> PyPath p \<and> ld \<noteq> PyStr p) \<longrightarrow>
      load_kitti_semantics_dataset env ld vr sh rs tr
        = (Inl (TypeError ''load_dir must be Path or str''), tr) \<and>
      load_kitti_depth_dataset env ld vr sh rs train tr
        = (Inl (TypeError ''load_dir must be Path or str''), tr)) \<and>
   ((\<exists>p. ld = PyPath p \<or> ld = PyStr p) \<longrightarrow>
      fst (load_kitti_semantics_dataset env ld vr sh rs tr)
        \<noteq> Inl (TypeError ''load_dir must be Path or str'') \<and>
      fst (load_kitti_depth_dataset env ld vr sh rs train tr)
        \<noteq> Inl (TypeError ''load_dir must be Path or str''))"
proof (intro conjI impI)
  assume n: "\<forall>p. ld \<noteq> PyPath p \<and> ld \<noteq> PyStr p"
  have e: "as_path ld = Inl (TypeError ''load_dir must be Path or str'')"
    using n by (rule as_path_cases(2))
  show "load_kitti_semantics_dataset env ld vr sh rs tr
        = (Inl (TypeError ''load_dir must be Path or str''), tr)"
    unfolding load_kitti_semantics_dataset_def e by (simp add: io_bind_def lift_def)
  show "load_kitti_depth_dataset env ld vr sh rs train tr
        = (Inl (TypeError ''load_dir must be Path or str''), tr)"
    unfolding load_kitti_depth_dataset_def e by (simp add: io_bind_def lift_def)
next
  assume "\<exists>p. ld = PyPath p \<or> ld = PyStr p"
  then show "fst (load_kitti_semantics_dataset env ld vr sh rs tr)
        \<noteq> Inl (TypeError ''load_dir must be Path or str'')"
    by (rule loaders_no_TypeError(1))
next
  assume "\<exists>p. ld = PyPath p \<or> ld = PyStr p"
  then show "fst (load_kitti_depth_dataset env ld vr sh rs train tr)
        \<noteq> Inl (TypeError ''load_dir must be Path or str'')"
    by (rule loaders_no_TypeError(2))
qed

theorem load_dir_type_check_witness:
  "load_kitti_semantics_dataset example_env (PyInt 3) (SizeFloat (1 / 5)) True None []
     = (Inl (TypeError ''load_dir must be Path or str''), []) \<and>
   load_kitti_depth_dataset example_env (PyList [PyStr ''d'']) (SizeFloat (1 / 5)) True None False
       [Open ''x'']
     = (Inl (TypeError ''load_dir must be Path or str''), [Open ''x'']) \<and>
   fst (load_kitti_semantics_dataset example_env (PyStr ''d'') (SizeFloat (1 / 5)) True None [])
     \<noteq> Inl (TypeError ''load_dir must be Path or str'') \<and>
   fst (load_kitti_depth_dataset example_env (PyPath ''nowhere'') (SizeInt 0) True None True [])
     \<noteq> Inl (TypeError ''load_dir must be Path or str'')"
proof -
  have a: "\<forall>p. PyInt 3 \<noteq> PyPath p \<and> PyInt 3 \<noteq> PyStr p"
    by simp
  have b: "\<forall>p. PyList [PyStr ''d''] \<noteq> PyPath p \<and> PyList [PyStr ''d''] \<noteq> PyStr p"
    by simp
  have c: "\<exists>p. PyStr ''d'' = PyPath p \<or> PyStr ''d'' = PyStr p"
    by simp
  have d: "\<exists>p. PyPath ''nowhere'' = PyPath p \<or> PyPath ''nowhere'' = PyStr p"
    by simp
  show ?thesis
    using load_dir_type_check [where ld = "PyInt 3" and env = example_env
        and vr = "SizeFloat (1 / 5)" and sh = True and rs = None and tr = "[]"] a
      load_dir_type_check [where ld = "PyList [PyStr ''d'']" and env = example_env
        and vr = "SizeFloat (1 / 5)" and sh = True and rs = None and train = False
        and tr = "[Open ''x'']"] b
      load_dir_type_check [where ld = "PyStr ''d''" and env = example_env
        and vr = "SizeFloat (1 / 5)" and sh = True and rs = None and tr = "[]"] c
      load_dir_type_check [where ld = "PyPath ''nowhere''" and env = example_env
        and vr = "SizeInt 0" and sh = True and rs = None and train = True and tr = "[]"] d
    by blast
qed

section \<open>The split of the loaders\<close>

lemma semantics_loader_split:
  assumes ld: "load_kitti_semantics_dataset env ld vr sh rs tr = (Inr (trn, val, tst), tr')"
    and rng: "sh \<longrightarrow> rng_ok env"
  obtains d xs ys tr1 itrain itest where
    "as_path ld = Inr d"
    "for_each (semantics_train_step env d) (glob env d ''training/image_2/*.png'') ([], [])
        (tr @ [Glob d ''training/image_2/*.png'']) = (Inr (xs, ys), tr1)"
    "length xs = length (glob env d ''training/image_2/*.png'')" "length ys = length xs"
    "distinct (itrain @ itest)" "set (itrain @ itest) = {0..<length xs}"
    "length itrain + length itest = length xs"
    "\<forall>f. vr = SizeFloat f \<longrightarrow> length itest = nat \<lceil>f * of_nat (length xs)\<rceil>"
    "X trn = Arr (map (\<lambda>i. xs ! i) itrain)" "Y trn = Arr (map (\<lambda>i. ys ! i) itrain)"
    "X val = Arr (map (\<lambda>i. xs ! i) itest)" "Y val = Arr (map (\<lambda>i. ys ! i) itest)"
proof -
  from ld obtain d xy x_train x_val y_train y_val tr1 where
    d: "as_path ld = Inr d"
    and fe: "for_each (semantics_train_step env d) (glob env d ''training/image_2/*.png'') ([], [])
        (tr @ [Glob d ''training/image_2/*.png'']) = (Inr xy, tr1)"
    and sp: "train_test_split env [fst xy, snd xy] vr sh rs
        = Inr [(x_train, x_val), (y_train, y_val)]"
    and i1: "KittiSemanticsDataset_init x_train y_train = Inr trn"
    and i2: "KittiSemanticsDataset_init x_val y_val = Inr val"
    by (rule load_kitti_semantics_dataset_Inr)
  obtain xs ys where xy: "xy = (xs, ys)"
    by (cases xy)
  let ?n = "length (glob env d ''training/image_2/*.png'')"
  have "length (fst xy) = 0 + ?n \<and> length (snd xy) = 0 + ?n"
    by (rule for_each_count[OF fe,
          where Q = "\<lambda>acc k. length (fst acc) = k \<and> length (snd acc) = k"])
       (auto dest: semantics_train_step_lengths)
  then have len: "length xs = ?n" "length ys = length xs"
    by (simp_all add: xy)
  from train_test_split_Inr[OF sp rng] obtain itrain itest where
    t: "distinct (itrain @ itest)" "set (itrain @ itest) = {0..<length xs}"
       "length itrain + length itest = length xs"
       "\<forall>f. vr = SizeFloat f \<longrightarrow> length itest = nat \<lceil>f * of_nat (length xs)\<rceil>"
    and p: "[(x_train, x_val), (y_train, y_val)]
       = map (\<lambda>a. (map (\<lambda>i. a ! i) itrain, map (\<lambda>i. a ! i) itest)) [xs, ys]"
    unfolding xy by auto
  have e: "x_train = map (\<lambda>i. xs ! i) itrain" "x_val = map (\<lambda>i. xs ! i) itest"
    "y_train = map (\<lambda>i. ys ! i) itrain" "y_val = map (\<lambda>i. ys ! i) itest"
    using p by simp_all
  show ?thesis
    using that[OF d fe[unfolded xy] len t]
      KittiSemanticsDataset_init_Inr[OF i1] KittiSemanticsDataset_init_Inr[OF i2]
    unfolding e by blast
qed

lemma depth_loader_split:
  assumes ld: "load_kitti_depth_dataset env ld vr sh rs True tr = (Inr r, tr')"
    and rng: "sh \<longrightarrow> rng_ok env"
  obtains d c s m y itrain itest trn val where
    "as_path ld = Inr d" "r = TrainVal trn val"
    "for_each (depth_train_step env d) (glob env d ''val_selection_cropped/image/*.png'')
        ([], [], [], []) (tr @ [Glob d ''val_selection_cropped/image/*.png''])
        = (Inr (c, s, m, y), tr')"
    "length c = length (glob env d ''val_selection_cropped/image/*.png'')"
    "length s = length c" "length m = length c" "length y = length c"
    "distinct (itrain @ itest)" "set (itrain @ itest) = {0..<length c}"
    "length itrain + length itest = length c"
    "\<forall>f. vr = SizeFloat f \<longrightarrow> length itest = nat \<lceil>f * of_nat (length c)\<rceil>"
    "X trn = Arr (map (\<lambda>i. c ! i) itrain)" "X_sensor trn = Arr (map (\<lambda>i. s ! i) itrain)"
    "X_mask trn = Arr (map (\<lambda>i. m ! i) itrain)" "Y trn = Arr (map (\<lambda>i. y ! i) itrain)"
    "X val = Arr (map (\<lambda>i. c ! i) itest)" "X_sensor val = Arr (map (\<lambda>i. s ! i) itest)"
    "X_mask val = Arr (map (\<lambda>i. m ! i) itest)" "Y val = Arr (map (\<lambda>i. y ! i) itest)"
proof -
  from ld obtain d c s m y c_train c_val s_train s_val m_train m_val y_train y_val trn val where
    d: "as_path ld = Inr d"
    and fe: "for_each (depth_train_step env d) (glob env d ''val_selection_cropped/image/*.png'')
        ([], [], [], []) (tr @ [Glob d ''val_selection_cropped/image/*.png''])
        = (Inr (c, s, m, y), tr')"
    and sp: "train_test_split env [c, s, m, y] vr sh rs
        = Inr [(c_train, c_val), (s_train, s_val), (m_train, m_val), (y_train, y_val)]"
    and i1: "KittiDepthDataset_init c_train s_train m_train y_train = Inr trn"
    and i2: "KittiDepthDataset_init c_val s_val m_val y_val = Inr val"
    and r: "r = TrainVal trn val"
    by (rule load_kitti_depth_dataset_train_Inr)
  let ?n = "length (glob env d ''val_selection_cropped/image/*.png'')"
  have "case (c, s, m, y) of (c, s, m, y) \<Rightarrow>
          length c = 0 + ?n \<and> length s = 0 + ?n \<and> length m = 0 + ?n \<and> length y = 0 + ?n"
    by (rule for_each_count[OF fe, where Q = "\<lambda>acc k. case acc of (c, s, m, y) \<Rightarrow>
          length c = k \<and> length s = k \<and> length m = k \<and> length y = k"])
       (auto dest: depth_train_step_lengths)
  then have len: "length c = ?n" "length s = length c" "length m = length c" "length y = length c"
    by simp_all
  from train_test_split_Inr[OF sp rng] obtain itrain itest where
    t: "distinct (itrain @ itest)" "set (itrain @ itest) = {0..<length c}"
       "length itrain + length itest = length c"
       "\<forall>f. vr = SizeFloat f \<longrightarrow> length itest = nat \<lceil>f * of_nat (length c)\<rceil>"
    and p: "[(c_train, c_val), (s_train, s_val), (m_train, m_val), (y_train, y_val)]
       = map (\<lambda>a. (map (\<lambda>i. a ! i) itrain, map (\<lambda>i. a ! i) itest)) [c, s, m, y]"
    by auto
  have e: "c_train = map (\<lambda>i. c ! i) itrain" "c_val = map (\<lambda>i. c ! i) itest"
    "s_train = map (\<lambda>i. s ! i) itrain" "s_val = map (\<lambda>i. s ! i) itest"
    "m_train = map (\<lambda>i. m ! i) itrain" "m_val = map (\<lambda>i. m ! i) itest"
    "y_train = map (\<lambda>i. y ! i) itrain" "y_val = map (\<lambda>i. y ! i) itest"
    using p by simp_all
  show ?thesis
    using that[OF d r fe len t]
      KittiDepthDataset_init_Inr[OF i1] KittiDepthDataset_init_Inr[OF i2]
    unfolding e by blast
qed

lemma rng_ok_example_env: "rng_ok example_env"
  by (simp add: rng_ok_def permutes_indices_def example_env_def)

section \<open>The split is a partition\<close>

lemma partition_facts:
  assumes "distinct (itrain @ itest)" "set (itrain @ itest) = {0..<n}"
  shows "distinct itrain \<and> distinct itest \<and> set itrain \<inter> set itest = {} \<and>
         set itrain \<union> set itest = {0..<n}"
  using assms by auto

lemma scenario_10: "nat \<lceil>(1 / 5 :: rat) * of_nat 10\<rceil> = 2"
  by simp

text \<open>
  C3. Whenever a loader returns a train and a validation dataset (the generator permuting
  indices when shuffling), the two are a partition of the collected training samples: there
  are index lists \<open>itrain\<close> and \<open>itest\<close>, without repetition, disjoint, together all the
  positions of the collected lists, such that the train dataset holds the samples at \<open>itrain\<close>
  and the validation dataset those at \<open>itest\<close>. So the two lengths add up to the number of
  training files found. With 10 files and \<^verbatim>\<open>val_ratio=0.2\<close> the train dataset has 8 samples
  and the validation dataset 2.
\<close>

theorem split_partition:
  "((sh \<longrightarrow> rng_ok env) \<and>
    load_kitti_semantics_dataset env ld vr sh rs tr = (Inr (trn, val, tst), tr') \<longrightarrow>
      (\<exists>d xs ys tr1 itrain itest.
         as_path ld = Inr d \<and>
         for_each (semantics_train_step env d) (glob env d ''training/image_2/*.png'') ([], [])
            (tr @ [Glob d ''training/image_2/*.png'']) = (Inr (xs, ys), tr1) \<and>
         length xs = length (glob env d ''training/image_2/*.png'') \<and> length ys = length xs \<and>
         X trn = Arr (map (\<lambda>i. xs ! i) itrain) \<and> Y trn = Arr (map (\<lambda>i. ys ! i) itrain) \<and>
         X val = Arr (map (\<lambda>i. xs ! i) itest) \<and> Y val = Arr (map (\<lambda>i. ys ! i) itest) \<and>
         distinct itrain \<and> distinct itest \<and> set itrain \<inter> set itest = {} \<and>
         set itrain \<union> set itest = {0..<length xs} \<and>
         dataset_len trn = Inr (length itrain) \<and> dataset_len val = Inr (length itest) \<and>
         length itrain + length itest = length (glob env d ''training/image_2/*.png'') \<and>
         (length (glob env d ''training/image_2/*.png'') = 10 \<and> vr = SizeFloat (1 / 5) \<longrightarrow>
            dataset_len trn = Inr 8 \<and> dataset_len val = Inr 2))) \<and>
   ((sh \<longrightarrow> rng_ok env) \<and>
    load_kitti_depth_dataset env ld vr sh rs True tr = (Inr r, tr') \<longrightarrow>
      (\<exists>d c s m y itrain itest trn val.
         as_path ld = Inr d \<and> r = TrainVal trn val \<and>
         for_each (depth_train_step env d) (glob env d ''val_selection_cropped/image/*.png'')
            ([], [], [], []) (tr @ [Glob d ''val_selection_cropped/image/*.png''])
            = (Inr (c, s, m, y), tr') \<and>
         length c = length (glob env d ''val_selection_cropped/image/*.png'') \<and>
         X trn = Arr (map (\<lambda>i. c ! i) itrain) \<and> X val = Arr (map (\<lambda>i. c ! i) itest) \<and>
         Y trn = Arr (map (\<lambda>i. y ! i) itrain) \<and> Y val = Arr (map (\<lambda>i. y ! i) itest) \<and>
         distinct itrain \<and> distinct itest \<and> set itrain \<inter> set itest = {} \<and>
         set itrain \<union> set itest = {0..<length c} \<and>
         dataset_len trn = Inr (length itrain) \<and> dataset_len val = Inr (length itest) \<and>
         length itrain + length itest = length (glob env d ''val_selection_cropped/image/*.png'') \<and>
         (length (glob env d ''val_selection_cropped/image/*.png'') = 10 \<and>
          vr = SizeFloat (1 / 5) \<longrightarrow>
            dataset_len trn = Inr 8 \<and> dataset_len val = Inr 2)))"
proof (intro conjI impI)
  assume a: "(sh \<longrightarrow> rng_ok env) \<and>
    load_kitti_semantics_dataset env ld vr sh rs tr = (Inr (trn, val, tst), tr')"
  let ?P = "''training/image_2/*.png''"
  from a have ldr: "load_kitti_semantics_dataset env ld vr sh rs tr = (Inr (trn, val, tst), tr')"
    and rng: "sh \<longrightarrow> rng_ok env"
    by simp_all
  from ldr rng obtain d xs ys tr1 itrain itest where
    d: "as_path ld = Inr d"
    and fe: "for_each (semantics_train_step env d) (glob env d ?P) ([], [])
        (tr @ [Glob d ?P]) = (Inr (xs, ys), tr1)"
    and len: "length xs = length (glob env d ?P)" "length ys = length xs"
    and ds: "distinct (itrain @ itest)" "set (itrain @ itest) = {0..<length xs}"
    and sum: "length itrain + length itest = length xs"
    and fl: "\<forall>f. vr = SizeFloat f \<longrightarrow> length itest = nat \<lceil>f * of_nat (length xs)\<rceil>"
    and f: "X trn = Arr (map (\<lambda>i. xs ! i) itrain)" "Y trn = Arr (map (\<lambda>i. ys ! i) itrain)"
      "X val = Arr (map (\<lambda>i. xs ! i) itest)" "Y val = Arr (map (\<lambda>i. ys ! i) itest)"
    by (rule semantics_loader_split)
  note pf = partition_facts[OF ds]
  have pf1: "distinct itrain" and pf2: "distinct itest"
    and pf3: "set itrain \<inter> set itest = {}"
    using pf by blast+
  have dl: "dataset_len trn = Inr (length itrain)" "dataset_len val = Inr (length itest)"
    by (simp_all add: dataset_len_def f)
  have sum': "length itrain + length itest = length (glob env d ?P)"
    using sum len by simp
  have sc: "dataset_len trn = Inr 8 \<and> dataset_len val = Inr 2"
    if "length (glob env d ?P) = 10 \<and> vr = SizeFloat (1 / 5)"
  proof -
    have "length itest = nat \<lceil>(1 / 5 :: rat) * of_nat (length xs)\<rceil>"
      using fl that by blast
    moreover have "length xs = 10"
      using that len by simp
    ultimately have "length itest = 2"
      by simp
    moreover have "length itrain = 8"
      using sum' that \<open>length itest = 2\<close> by simp
    ultimately show ?thesis using dl by simp
  qed
  have pf4: "set itrain \<union> set itest = {0..<length xs}"
    using pf by blast
  have sc': "length (glob env d ?P) = 10 \<and> vr = SizeFloat (1 / 5) \<longrightarrow>
      dataset_len trn = Inr 8 \<and> dataset_len val = Inr 2"
    using sc by blast
  show "\<exists>d xs ys tr1 itrain itest.
         as_path ld = Inr d \<and>
         for_each (semantics_train_step env d) (glob env d ''training/image_2/*.png'') ([], [])
            (tr @ [Glob d ''training/image_2/*.png'']) = (Inr (xs, ys), tr1) \<and>
         length xs = length (glob env d ''training/image_2/*.png'') \<and> length ys = length xs \<and>
         X trn = Arr (map (\<lambda>i. xs ! i) itrain) \<and> Y trn = Arr (map (\<lambda>i. ys ! i) itrain) \<and>
         X val = Arr (map (\<lambda>i. xs ! i) itest) \<and> Y val = Arr (map (\<lambda>i. ys ! i) itest) \<and>
         distinct itrain \<and> distinct itest \<and> set itrain \<inter> set itest = {} \<and>
         set itrain \<union> set itest = {0..<length xs} \<and>
         dataset_len trn = Inr (length itrain) \<and> dataset_len val = Inr (length itest) \<and>
         length itrain + length itest = length (glob env d ''training/image_2/*.png'') \<and>
         (length (glob env d ''training/image_2/*.png'') = 10 \<and> vr = SizeFloat (1 / 5) \<longrightarrow>
            dataset_len trn = Inr 8 \<and> dataset_len val = Inr 2)"
    using d fe len f pf1 pf2 pf3 pf4 dl sum' sc'
    apply -
    apply (rule exI[of _ d], rule exI[of _ xs], rule exI[of _ ys], rule exI[of _ tr1],
        rule exI[of _ itrain], rule exI[of _ itest])
    apply (intro conjI)
                    apply assumption+
    done
next
  assume a: "(sh \<longrightarrow> rng_ok env) \<and>
    load_kitti_depth_dataset env ld vr sh rs True tr = (Inr r, tr')"
  let ?P = "''val_selection_cropped/image/*.png''"
  from a have ldr: "load_kitti_depth_dataset env ld vr sh rs True tr = (Inr r, tr')"
    and rng: "sh \<longrightarrow> rng_ok env"
    by simp_all
  from ldr rng obtain d c s m y itrain itest trn val where
    d: "as_path ld = Inr d" and r: "r = TrainVal trn val"
    and fe: "for_each (depth_train_step env d) (glob env d ?P)
        ([], [], [], []) (tr @ [Glob d ?P]) = (Inr (c, s, m, y), tr')"
    and len: "length c = length (glob env d ?P)"
    and ds: "distinct (itrain @ itest)" "set (itrain @ itest) = {0..<length c}"
    and sum: "length itrain + length itest = length c"
    and fl: "\<forall>f. vr = SizeFloat f \<longrightarrow> length itest = nat \<lceil>f * of_nat (length c)\<rceil>"
    and f: "X trn = Arr (map (\<lambda>i. c ! i) itrain)" "X val = Arr (map (\<lambda>i. c ! i) itest)"
      "Y trn = Arr (map (\<lambda>i. y ! i) itrain)" "Y val = Arr (map (\<lambda>i. y ! i) itest)"
    by (rule depth_loader_split)
  note pf = partition_facts[OF ds]
  have pf1: "distinct itrain" and pf2: "distinct itest"
    and pf3: "set itrain \<inter> set itest = {}"
    using pf by blast+
  have dl: "dataset_len trn = Inr (length itrain)" "dataset_len val = Inr (length itest)"
    by (simp_all add: dataset_len_def f)
  have sum': "length itrain + length itest = length (glob env d ?P)"
    using sum len by simp
  have sc: "dataset_len trn = Inr 8 \<and> dataset_len val = Inr 2"
    if "length (glob env d ?P) = 10 \<and> vr = SizeFloat (1 / 5)"
  proof -
    have "length itest = nat \<lceil>(1 / 5 :: rat) * of_nat (length c)\<rceil>"
      using fl that by blast
    moreover have "length c = 10"
      using that len by simp
    ultimately have "length itest = 2"
      by simp
    moreover have "length itrain = 8"
      using sum' that \<open>length itest = 2\<close> by simp
    ultimately show ?thesis using dl by simp
  qed
  have pf4: "set itrain \<union> set itest = {0..<length c}"
    using pf by blast
  have sc': "length (glob env d ?P) = 10 \<and> vr = SizeFloat (1 / 5) \<longrightarrow>
      dataset_len trn = Inr 8 \<and> dataset_len val = Inr 2"
    using sc by blast
  show "\<exists>d c s m y itrain itest trn val.
         as_path ld = Inr d \<and> r = TrainVal trn val \<and>
         for_each (depth_train_step env d) (glob env d ''val_selection_cropped/image/*.png'')
            ([], [], [], []) (tr @ [Glob d ''val_selection_cropped/image/*.png''])
            = (Inr (c, s, m, y), tr') \<and>
         length c = length (glob env d ''val_selection_cropped/image/*.png'') \<and>
         X trn = Arr (map (\<lambda>i. c ! i) itrain) \<and> X val = Arr (map (\<lambda>i. c ! i) itest) \<and>
         Y trn = Arr (map (\<lambda>i. y ! i) itrain) \<and> Y val = Arr (map (\<lambda>i. y ! i) itest) \<and>
         distinct itrain \<and> distinct itest \<and> set itrain \<inter> set itest = {} \<and>
         set itrain \<union> set itest = {0..<length c} \<and>
         dataset_len trn = Inr (length itrain) \<and> dataset_len val = Inr (length itest) \<and>
         length itrain + length itest = length (glob env d ''val_selection_cropped/image/*.png'') \<and>
         (length (glob env d ''val_selection_cropped/image/*.png'') = 10 \<and>
          vr = SizeFloat (1 / 5) \<longrightarrow>
            dataset_len trn = Inr 8 \<and> dataset_len val = Inr 2)"
    using d r fe len f pf1 pf2 pf3 pf4 dl sum' sc'
    apply -
    apply (rule exI[of _ d], rule exI[of _ c], rule exI[of _ s], rule exI[of _ m],
        rule exI[of _ y], rule exI[of _ itrain], rule exI[of _ itest], rule exI[of _ trn],
        rule exI[of _ val])
    apply (intro conjI)
                    apply assumption+
    done
qed

theorem split_partition_witness:
  "(\<exists>trn val tst tr'. load_kitti_semantics_dataset example_env (PyStr ''d'') (SizeFloat (1 / 5))
        True (Some 0) [] = (Inr (trn, val, tst), tr') \<and>
      dataset_len trn = Inr 8 \<and> dataset_len val = Inr 2) \<and>
   (\<exists>trn val tr'. load_kitti_depth_dataset example_env (PyStr ''d'') (SizeFloat (1 / 5))
        True (Some 1) True [] = (Inr (TrainVal trn val), tr') \<and>
      dataset_len trn = Inr 8 \<and> dataset_len val = Inr 2)"
proof -
  have g1: "length (glob example_env ''d'' ''training/image_2/*.png'') = 10"
    by (simp add: example_env_def example_glob_def example_names_def)
  have g2: "length (glob example_env ''d'' ''val_selection_cropped/image/*.png'') = 10"
    by (simp add: example_env_def example_glob_def example_names_def)
  have p: "as_path (PyStr ''d'') = Inr ''d''"
    by (simp add: as_path_def)
  have "case load_kitti_semantics_dataset example_env (PyStr ''d'') (SizeFloat (1 / 5))
        True (Some 0) [] of (Inr (trn, val, tst), tr') \<Rightarrow> True | _ \<Rightarrow> False"
    by code_simp
  then obtain trn val tst tr1 where
    s: "load_kitti_semantics_dataset example_env (PyStr ''d'') (SizeFloat (1 / 5))
        True (Some 0) [] = (Inr (trn, val, tst), tr1)"
    by (auto split: prod.splits sum.splits)
  have "\<exists>d. as_path (PyStr ''d'') = Inr d \<and>
      (length (glob example_env d ''training/image_2/*.png'') = 10 \<and>
       SizeFloat (1 / 5) = SizeFloat (1 / 5) \<longrightarrow>
         dataset_len trn = Inr 8 \<and> dataset_len val = Inr 2)"
    using split_partition [where env = example_env and ld = "PyStr ''d''"
        and vr = "SizeFloat (1 / 5)" and sh = True and rs = "Some 0" and tr = "[]"
        and trn = trn and val = val and tst = tst and tr' = tr1]
      s rng_ok_example_env
    by blast
  then have s8: "dataset_len trn = Inr 8 \<and> dataset_len val = Inr 2"
    using p g1 by auto
  have "case load_kitti_depth_dataset example_env (PyStr ''d'') (SizeFloat (1 / 5))
        True (Some 1) True [] of (Inr (TrainVal trn val), tr') \<Rightarrow> True | _ \<Rightarrow> False"
    by code_simp
  then obtain dtrn dval tr2 where
    t: "load_kitti_depth_dataset example_env (PyStr ''d'') (SizeFloat (1 / 5))
        True (Some 1) True [] = (Inr (TrainVal dtrn dval), tr2)"
    by (auto split: prod.splits sum.splits depth_result.splits)
  have "\<exists>d trn val. as_path (PyStr ''d'') = Inr d \<and> TrainVal dtrn dval = TrainVal trn val \<and>
      (length (glob example_env d ''val_selection_cropped/image/*.png'') = 10 \<and>
       SizeFloat (1 / 5) = SizeFloat (1 / 5) \<longrightarrow>
         dataset_len trn = Inr 8 \<and> dataset_len val = Inr 2)"
    using split_partition [where env = example_env and ld = "PyStr ''d''"
        and vr = "SizeFloat (1 / 5)" and sh = True and rs = "Some 1" and tr = "[]"
        and r = "TrainVal dtrn dval" and tr' = tr2]
      t rng_ok_example_env
    by blast
  then have d8: "dataset_len dtrn = Inr 8 \<and> dataset_len dval = Inr 2"
    using p g2 by auto
  from s s8 t d8 show ?thesis
    by blast
qed

section \<open>The split does not depend on hidden state\<close>

lemma global_state_parts:
  "preprocess_c (env\<lparr>global_state := g\<rparr>) = preprocess_c env"
  "preprocess_d (env\<lparr>global_state := g\<rparr>) = preprocess_d env"
  "load_image (env\<lparr>global_state := g\<rparr>) = load_image env"
  "glob_io (env\<lparr>global_state := g\<rparr>) = glob_io env"
  by (simp_all add: fun_eq_iff preprocess_c_def preprocess_d_def load_image_def glob_io_def)

lemma global_state_steps:
  "semantics_train_step (env\<lparr>global_state := g\<rparr>) = semantics_train_step env"
  "semantics_test_step (env\<lparr>global_state := g\<rparr>) = semantics_test_step env"
  "depth_train_step (env\<lparr>global_state := g\<rparr>) = depth_train_step env"
  "depth_test_step (env\<lparr>global_state := g\<rparr>) = depth_test_step env"
  by (simp_all add: fun_eq_iff semantics_train_step_def semantics_test_step_def
      depth_train_step_def depth_test_step_def global_state_parts)

lemma split_indices_seeded:
  "split_indices (env\<lparr>global_state := g\<rparr>) n n_train n_test sh (Some seed)
     = split_indices env n n_train n_test sh (Some seed)"
  by (simp add: split_indices_def check_random_state_def)

lemma split_indices_unshuffled:
  "split_indices env n n_train n_test False rs = Inr ([0..<n_train], [n_train..<n_train + n_test])"
  by (simp add: split_indices_def)

lemma global_state_split_seeded:
  "train_test_split (env\<lparr>global_state := g\<rparr>) arrays ts sh (Some seed)
     = train_test_split env arrays ts sh (Some seed)"
  unfolding train_test_split_def split_indices_seeded by (rule refl)

lemma split_unshuffled:
  "train_test_split env1 arrays ts False rs1 = train_test_split env2 arrays ts False rs2"
  unfolding train_test_split_def split_indices_unshuffled by (rule refl)

lemma global_state_loaders_seeded:
  "load_kitti_semantics_dataset (env\<lparr>global_state := g\<rparr>) ld vr sh (Some seed)
     = load_kitti_semantics_dataset env ld vr sh (Some seed)"
  "load_kitti_depth_dataset (env\<lparr>global_state := g\<rparr>) ld vr sh (Some seed) train
     = load_kitti_depth_dataset env ld vr sh (Some seed) train"
  unfolding load_kitti_semantics_dataset_def load_kitti_depth_dataset_def
    global_state_parts global_state_steps global_state_split_seeded
  by (rule refl)+

lemma global_state_loaders_unshuffled:
  "load_kitti_semantics_dataset (env\<lparr>global_state := g\<rparr>) ld vr False rs
     = load_kitti_semantics_dataset env ld vr False rs"
  "load_kitti_depth_dataset (env\<lparr>global_state := g\<rparr>) ld vr False rs train
     = load_kitti_depth_dataset env ld vr False rs train"
  unfolding load_kitti_semantics_dataset_def load_kitti_depth_dataset_def
    global_state_parts global_state_steps
    split_unshuffled [of "env\<lparr>global_state := g\<rparr>" _ _ rs env rs]
  by (rule refl)+

text \<open>
  C4. The train/validation split is a function of the collected samples, \<^verbatim>\<open>val_ratio\<close>,
  \<^verbatim>\<open>shuffle\<close> and \<^verbatim>\<open>random_state\<close>: with an integer \<^verbatim>\<open>random_state\<close>, and also without
  shuffling, neither the split nor a loader depends on the state of the global generator, the
  only input of the split that is not an argument; without shuffling the split does not
  depend on the generator or on \<^verbatim>\<open>random_state\<close> at all. In the depth loader the four
  collections are indexed with the same two index lists, a permutation of the positions: the
  color, sensor, mask and target at a position of the train (validation) dataset come from
  one and the same collected sample.
\<close>

theorem split_reproducible:
  "train_test_split (env\<lparr>global_state := g\<rparr>) arrays ts sh (Some seed)
     = train_test_split env arrays ts sh (Some seed) \<and>
   train_test_split env arrays ts False rs = train_test_split env2 arrays ts False rs2 \<and>
   load_kitti_semantics_dataset (env\<lparr>global_state := g\<rparr>) ld vr sh (Some seed) tr
     = load_kitti_semantics_dataset env ld vr sh (Some seed) tr \<and>
   load_kitti_depth_dataset (env\<lparr>global_state := g\<rparr>) ld vr sh (Some seed) train tr
     = load_kitti_depth_dataset env ld vr sh (Some seed) train tr \<and>
   load_kitti_semantics_dataset (env\<lparr>global_state := g\<rparr>) ld vr False rs tr
     = load_kitti_semantics_dataset env ld vr False rs tr \<and>
   load_kitti_depth_dataset (env\<lparr>global_state := g\<rparr>) ld vr False rs train tr
     = load_kitti_depth_dataset env ld vr False rs train tr \<and>
   ((sh \<longrightarrow> rng_ok env) \<and>
    load_kitti_depth_dataset env ld vr sh rs True tr = (Inr r, tr') \<longrightarrow>
      (\<exists>d c s m y itrain itest trn val.
         as_path ld = Inr d \<and> r = TrainVal trn val \<and>
         for_each (depth_train_step env d) (glob env d ''val_selection_cropped/image/*.png'')
            ([], [], [], []) (tr @ [Glob d ''val_selection_cropped/image/*.png''])
            = (Inr (c, s, m, y), tr') \<and>
         length s = length c \<and> length m = length c \<and> length y = length c \<and>
         distinct (itrain @ itest) \<and> set (itrain @ itest) = {0..<length c} \<and>
         X trn = Arr (map (\<lambda>i. c ! i) itrain) \<and> X_sensor trn = Arr (map (\<lambda>i. s ! i) itrain) \<and>
         X_mask trn = Arr (map (\<lambda>i. m ! i) itrain) \<and> Y trn = Arr (map (\<lambda>i. y ! i) itrain) \<and>
         X val = Arr (map (\<lambda>i. c ! i) itest) \<and> X_sensor val = Arr (map (\<lambda>i. s ! i) itest) \<and>
         X_mask val = Arr (map (\<lambda>i. m ! i) itest) \<and> Y val = Arr (map (\<lambda>i. y ! i) itest)))"
proof (intro conjI impI)
  show "train_test_split (env\<lparr>global_state := g\<rparr>) arrays ts sh (Some seed)
     = train_test_split env arrays ts sh (Some seed)"
    by (rule global_state_split_seeded)
  show "train_test_split env arrays ts False rs = train_test_split env2 arrays ts False rs2"
    by (rule split_unshuffled)
  show "load_kitti_semantics_dataset (env\<lparr>global_state := g\<rparr>) ld vr sh (Some seed) tr
     = load_kitti_semantics_dataset env ld vr sh (Some seed) tr"
    by (simp only: global_state_loaders_seeded)
  show "load_kitti_depth_dataset (env\<lparr>global_state := g\<rparr>) ld vr sh (Some seed) train tr
     = load_kitti_depth_dataset env ld vr sh (Some seed) train tr"
    by (simp only: global_state_loaders_seeded)
  show "load_kitti_semantics_dataset (env\<lparr>global_state := g\<rparr>) ld vr False rs tr
     = load_kitti_semantics_dataset env ld vr False rs tr"
    by (simp only: global_state_loaders_unshuffled)
  show "load_kitti_depth_dataset (env\<lparr>global_state := g\<rparr>) ld vr False rs train tr
     = load_kitti_depth_dataset env ld vr False rs train tr"
    by (simp only: global_state_loaders_unshuffled)
next
  assume a: "(sh \<longrightarrow> rng_ok env) \<and>
    load_kitti_depth_dataset env ld vr sh rs True tr = (Inr r, tr')"
  let ?P = "''val_selection_cropped/image/*.png''"
  from a have ldr: "load_kitti_depth_dataset env ld vr sh rs True tr = (Inr r, tr')"
    and rng: "sh \<longrightarrow> rng_ok env"
    by simp_all
  from ldr rng obtain d c s m y itrain itest trn val where
    d: "as_path ld = Inr d" and r: "r = TrainVal trn val"
    and fe: "for_each (depth_train_step env d) (glob env d ?P)
        ([], [], [], []) (tr @ [Glob d ?P]) = (Inr (c, s, m, y), tr')"
    and len: "length s = length c" "length m = length c" "length y = length c"
    and ds: "distinct (itrain @ itest)" "set (itrain @ itest) = {0..<length c}"
    and f: "X trn = Arr (map (\<lambda>i. c ! i) itrain)" "X_sensor trn = Arr (map (\<lambda>i. s ! i) itrain)"
      "X_mask trn = Arr (map (\<lambda>i. m ! i) itrain)" "Y trn = Arr (map (\<lambda>i. y ! i) itrain)"
      "X val = Arr (map (\<lambda>i. c ! i) itest)" "X_sensor val = Arr (map (\<lambda>i. s ! i) itest)"
      "X_mask val = Arr (map (\<lambda>i. m ! i) itest)" "Y val = Arr (map (\<lambda>i. y ! i) itest)"
    by (rule depth_loader_split)
  show "\<exists>d c s m y itrain itest trn val.
         as_path ld = Inr d \<and> r = TrainVal trn val \<and>
         for_each (depth_train_step env d) (glob env d ''val_selection_cropped/image/*.png'')
            ([], [], [], []) (tr @ [Glob d ''val_selection_cropped/image/*.png''])
            = (Inr (c, s, m, y), tr') \<and>
         length s = length c \<and> length m = length c \<and> length y = length c \<and>
         distinct (itrain @ itest) \<and> set (itrain @ itest) = {0..<length c} \<and>
         X trn = Arr (map (\<lambda>i. c ! i) itrain) \<and> X_sensor trn = Arr (map (\<lambda>i. s ! i) itrain) \<and>
         X_mask trn = Arr (map (\<lambda>i. m ! i) itrain) \<and> Y trn = Arr (map (\<lambda>i. y ! i) itrain) \<and>
         X val = Arr (map (\<lambda>i. c ! i) itest) \<and> X_sensor val = Arr (map (\<lambda>i. s ! i) itest) \<and>
         X_mask val = Arr (map (\<lambda>i. m ! i) itest) \<and> Y val = Arr (map (\<lambda>i. y ! i) itest)"
    using d r fe len ds f
    apply -
    apply (rule exI[of _ d], rule exI[of _ c], rule exI[of _ s], rule exI[of _ m],
        rule exI[of _ y], rule exI[of _ itrain], rule exI[of _ itest], rule exI[of _ trn],
        rule exI[of _ val])
    apply (intro conjI)
                    apply assumption+
    done
qed

theorem split_reproducible_witness:
  "load_kitti_depth_dataset (example_env\<lparr>global_state := 0\<rparr>) (PyStr ''d'') (SizeFloat (1 / 5))
       True (Some 1) True []
     = load_kitti_depth_dataset example_env (PyStr ''d'') (SizeFloat (1 / 5)) True (Some 1) True [] \<and>
   load_kitti_depth_dataset (example_env\<lparr>global_state := 0\<rparr>) (PyStr ''d'') (SizeFloat (1 / 5))
       True None True []
     \<noteq> load_kitti_depth_dataset example_env (PyStr ''d'') (SizeFloat (1 / 5)) True None True [] \<and>
   (\<exists>trn val tr' c s m y itrain itest.
      load_kitti_depth_dataset example_env (PyStr ''d'') (SizeFloat (1 / 5)) True (Some 1) True []
        = (Inr (TrainVal trn val), tr') \<and>
      distinct (itrain @ itest) \<and> set (itrain @ itest) = {0..<length c} \<and>
      X trn = Arr (map (\<lambda>i. c ! i) itrain) \<and> X_sensor trn = Arr (map (\<lambda>i. s ! i) itrain) \<and>
      X_mask trn = Arr (map (\<lambda>i. m ! i) itrain) \<and> Y trn = Arr (map (\<lambda>i. y ! i) itrain) \<and>
      X val = Arr (map (\<lambda>i. c ! i) itest) \<and> X_sensor val = Arr (map (\<lambda>i. s ! i) itest) \<and>
      X_mask val = Arr (map (\<lambda>i. m ! i) itest) \<and> Y val = Arr (map (\<lambda>i. y ! i) itest))"
proof -
  have a: "load_kitti_depth_dataset (example_env\<lparr>global_state := 0\<rparr>) (PyStr ''d'')
       (SizeFloat (1 / 5)) True (Some 1) True []
     = load_kitti_depth_dataset example_env (PyStr ''d'') (SizeFloat (1 / 5)) True (Some 1) True []"
    by (rule split_reproducible [where env = example_env and g = 0 and ld = "PyStr ''d''"
        and vr = "SizeFloat (1 / 5)" and sh = True and seed = 1 and train = True and tr = "[]",
        THEN conjunct2, THEN conjunct2, THEN conjunct2, THEN conjunct1])
  have b: "load_kitti_depth_dataset (example_env\<lparr>global_state := 0\<rparr>) (PyStr ''d'')
       (SizeFloat (1 / 5)) True None True []
     \<noteq> load_kitti_depth_dataset example_env (PyStr ''d'') (SizeFloat (1 / 5)) True None True []"
    by code_simp
  have "case load_kitti_depth_dataset example_env (PyStr ''d'') (SizeFloat (1 / 5))
        True (Some 1) True [] of (Inr (TrainVal trn val), tr') \<Rightarrow> True | _ \<Rightarrow> False"
    by code_simp
  then obtain trn val tr1 where
    t: "load_kitti_depth_dataset example_env (PyStr ''d'') (SizeFloat (1 / 5))
        True (Some 1) True [] = (Inr (TrainVal trn val), tr1)"
    by (auto split: prod.splits sum.splits depth_result.splits)
  have h: "(True \<longrightarrow> rng_ok example_env) \<and>
      load_kitti_depth_dataset example_env (PyStr ''d'') (SizeFloat (1 / 5))
        True (Some 1) True [] = (Inr (TrainVal trn val), tr1)"
    using t rng_ok_example_env by simp
  have "\<exists>d c s m y itrain itest trn' val'.
         as_path (PyStr ''d'') = Inr d \<and> TrainVal trn val = TrainVal trn' val' \<and>
         for_each (depth_train_step example_env d)
            (glob example_env d ''val_selection_cropped/image/*.png'')
            ([], [], [], []) ([] @ [Glob d ''val_selection_cropped/image/*.png''])
            = (Inr (c, s, m, y), tr1) \<and>
         length s = length c \<and> length m = length c \<and> length y = length c \<and>
         distinct (itrain @ itest) \<and> set (itrain @ itest) = {0..<length c} \<and>
         X trn' = Arr (map (\<lambda>i. c ! i) itrain) \<and> X_sensor trn' = Arr (map (\<lambda>i. s ! i) itrain) \<and>
         X_mask trn' = Arr (map (\<lambda>i. m ! i) itrain) \<and> Y trn' = Arr (map (\<lambda>i. y ! i) itrain) \<and>
         X val' = Arr (map (\<lambda>i. c ! i) itest) \<and> X_sensor val' = Arr (map (\<lambda>i. s ! i) itest) \<and>
         X_mask val' = Arr (map (\<lambda>i. m ! i) itest) \<and> Y val' = Arr (map (\<lambda>i. y ! i) itest)"
    by (rule mp [OF split_reproducible [where env = example_env and ld = "PyStr ''d''"
        and vr = "SizeFloat (1 / 5)" and sh = True and rs = "Some 1" and tr = "[]"
        and r = "TrainVal trn val" and tr' = tr1,
        THEN conjunct2, THEN conjunct2, THEN conjunct2, THEN conjunct2, THEN conjunct2,
        THEN conjunct2] h])
  then obtain c s m y itrain itest where
    "distinct (itrain @ itest)" "set (itrain @ itest) = {0..<length c}"
    "X trn = Arr (map (\<lambda>i. c ! i) itrain)" "X_sensor trn = Arr (map (\<lambda>i. s ! i) itrain)"
    "X_mask trn = Arr (map (\<lambda>i. m ! i) itrain)" "Y trn = Arr (map (\<lambda>i. y ! i) itrain)"
    "X val = Arr (map (\<lambda>i. c ! i) itest)" "X_sensor val = Arr (map (\<lambda>i. s ! i) itest)"
    "X_mask val = Arr (map (\<lambda>i. m ! i) itest)" "Y val = Arr (map (\<lambda>i. y ! i) itest)"
    by (elim exE conjE) (simp only: depth_result.inject)
  then have c: "\<exists>trn val tr' c s m y itrain itest.
      load_kitti_depth_dataset example_env (PyStr ''d'') (SizeFloat (1 / 5)) True (Some 1) True []
        = (Inr (TrainVal trn val), tr') \<and>
      distinct (itrain @ itest) \<and> set (itrain @ itest) = {0..<length c} \<and>
      X trn = Arr (map (\<lambda>i. c ! i) itrain) \<and> X_sensor trn = Arr (map (\<lambda>i. s ! i) itrain) \<and>
      X_mask trn = Arr (map (\<lambda>i. m ! i) itrain) \<and> Y trn = Arr (map (\<lambda>i. y ! i) itrain) \<and>
      X val = Arr (map (\<lambda>i. c ! i) itest) \<and> X_sensor val = Arr (map (\<lambda>i. s ! i) itest) \<and>
      X_mask val = Arr (map (\<lambda>i. m ! i) itest) \<and> Y val = Arr (map (\<lambda>i. y ! i) itest)"
    using t
    apply -
    apply (rule exI[of _ trn], rule exI[of _ val], rule exI[of _ tr1], rule exI[of _ c],
        rule exI[of _ s], rule exI[of _ m], rule exI[of _ y], rule exI[of _ itrain],
        rule exI[of _ itest])
    apply (intro conjI)
              apply assumption+
    done
  from a b c show ?thesis
    by (intro conjI)
qed

end
